theory Spec2Isabelle
  imports Complex_Main "HOL-Library.Word" "HOL-Library.Log_Nat"
begin

unbundle bit_operations_syntax

section \<open>The model\<close>

subsection \<open>Vertex-shader cache (PipelineThread.cpp, lines 133-272)\<close>

text \<open>
  The per-worker cache is the pair of parallel arrays \<open>m_CachedVertexIndices\<close> and
  \<open>m_VertexCacheEntries\<close> together with the counter \<open>m_NumVertexCacheEntries\<close>. Only the
  slots below the counter are ever read, so the cache is the list of its used slots, slot
  0 first: an entry is the cached vertex index with the clip-space position and the
  attribute record; the counter is the length of the list.
  The capacity \<open>g_scVertexShaderCacheSize\<close> is declared in a header that is not part of
  the sources at hand and is a parameter \<open>cacheSize\<close>.
  The vertex shader is a parameter \<open>VS\<close>: the index buffer yields a vertex index, the
  shader input is the vertex buffer at \<open>vertexStride * vertexIdx\<close>, so with the buffers of
  one draw fixed the shader result is a function of the vertex index.
\<close>

type_synonym ('c, 'a) VertexCache = "(32 word \<times> 'c \<times> 'a) list"

fun CacheVertexData ::
  "nat \<Rightarrow> ('c, 'a) VertexCache \<Rightarrow> 32 word \<Rightarrow> 'c \<Rightarrow> 'a \<Rightarrow> ('c, 'a) VertexCache" where
  "CacheVertexData cacheSize cache vertexIdx clip attribs =
     (if length cache < cacheSize then cache @ [(vertexIdx, clip, attribs)] else cache)"

text \<open>The loop of \<open>PerformVertexCacheLookup\<close>, \<open>idx\<close> being the slot of the head.\<close>

fun lookup_from :: "nat \<Rightarrow> ('c, 'a) VertexCache \<Rightarrow> 32 word \<Rightarrow> nat option" where
  "lookup_from idx [] v = None"
| "lookup_from idx (e # es) v = (if fst e = v then Some idx else lookup_from (Suc idx) es v)"

definition PerformVertexCacheLookup :: "('c, 'a) VertexCache \<Rightarrow> 32 word \<Rightarrow> nat option" where
  "PerformVertexCacheLookup cache v = lookup_from 0 cache v"

text \<open>
  One corner of \<open>ExecuteVertexShader\<close> with the cache enabled: look \<open>vertexIdx\<close> up; on a
  hit return the cached data, on a miss run the shader and cache the result under the
  index \<open>keyIdx\<close> that the call site passes to \<open>CacheVertexData\<close>.
\<close>

definition shade_corner ::
  "nat \<Rightarrow> (32 word \<Rightarrow> 'c \<times> 'a) \<Rightarrow> ('c, 'a) VertexCache \<Rightarrow> 32 word \<Rightarrow> 32 word
     \<Rightarrow> ('c, 'a) VertexCache \<times> ('c \<times> 'a)" where
  "shade_corner cacheSize VS cache vertexIdx keyIdx =
     (case PerformVertexCacheLookup cache vertexIdx of
        Some cacheEntry \<Rightarrow> (cache, snd (cache ! cacheEntry))
      | None \<Rightarrow>
          (let r = VS vertexIdx
           in (CacheVertexData cacheSize cache keyIdx (fst r) (snd r), r)))"

text \<open>
  \<open>ExecuteVertexShader\<close>: the three corners in order. The index buffer is read at
  \<open>vertexOffset + 3 * primIdx + k\<close>. With the cache disabled the shader runs three times.
  With the cache enabled, corners 0 and 1 cache their result under their own index;
  corner 2 passes \<open>vertexIdx0\<close> to \<open>CacheVertexData\<close> (line 235). The result is
  the cache and, for every corner, the clip-space position with the attribute record.
  The call of \<open>CalculateInterpolationCoefficients\<close> that ends the function (line 240)
  is made in \<open>process_primitive\<close> below, where the setup buffers are at hand.
\<close>

definition ExecuteVertexShader ::
  "bool \<Rightarrow> nat \<Rightarrow> (32 word \<Rightarrow> 'c \<times> 'a) \<Rightarrow> (nat \<Rightarrow> 32 word) \<Rightarrow> nat \<Rightarrow> nat
     \<Rightarrow> ('c, 'a) VertexCache
     \<Rightarrow> ('c, 'a) VertexCache \<times> ('c \<times> 'a) \<times> ('c \<times> 'a) \<times> ('c \<times> 'a)" where
  "ExecuteVertexShader cacheEnabled cacheSize VS pIndexBuffer vertexOffset primIdx cache =
     (let vertexIdx0 = pIndexBuffer (vertexOffset + (3 * primIdx));
          vertexIdx1 = pIndexBuffer (vertexOffset + (3 * primIdx + 1));
          vertexIdx2 = pIndexBuffer (vertexOffset + (3 * primIdx + 2))
      in if \<not> cacheEnabled then (cache, VS vertexIdx0, VS vertexIdx1, VS vertexIdx2)
         else
           (let (c0, r0) = shade_corner cacheSize VS cache vertexIdx0 vertexIdx0;
                (c1, r1) = shade_corner cacheSize VS c0 vertexIdx1 vertexIdx1;
                (c2, r2) = shade_corner cacheSize VS c1 vertexIdx2 vertexIdx0
            in (c2, r0, r1, r2)))"

text \<open>
  The geometry loop of \<open>ProcessDrawcall\<close> as far as the cache is concerned: the
  primitives of the worker's range in order, the cache carried along, the shaded corners
  of every primitive collected.
\<close>

fun geometry_vs ::
  "bool \<Rightarrow> nat \<Rightarrow> (32 word \<Rightarrow> 'c \<times> 'a) \<Rightarrow> (nat \<Rightarrow> 32 word) \<Rightarrow> nat \<Rightarrow> nat list
     \<Rightarrow> ('c, 'a) VertexCache
     \<Rightarrow> ('c, 'a) VertexCache \<times> (('c \<times> 'a) \<times> ('c \<times> 'a) \<times> ('c \<times> 'a)) list" where
  "geometry_vs en n VS ib off [] cache = (cache, [])"
| "geometry_vs en n VS ib off (p # ps) cache =
     (let (c1, r) = ExecuteVertexShader en n VS ib off p cache;
          (c2, rs) = geometry_vs en n VS ib off ps c1
      in (c2, r # rs))"

text \<open>
  Every key that the lookup finds leads to the shader result of that key.
\<close>

definition cache_ok :: "(32 word \<Rightarrow> 'c \<times> 'a) \<Rightarrow> ('c, 'a) VertexCache \<Rightarrow> bool" where
  "cache_ok VS cache =
     (\<forall>v idx. PerformVertexCacheLookup cache v = Some idx \<longrightarrow> snd (cache ! idx) = VS v)"

subsection \<open>Numbers and vectors\<close>

text \<open>
  A \<open>float\<close> of the source is a binary32 number. It is read as the real number it
  denotes, and an arithmetic operation of the source yields the exact result rounded to
  binary32: to the nearest number, a tie to the one with the even significand. That is
  the default rounding mode, which the source never changes.

  \<open>round_half_even\<close> rounds a real to the nearest integer, a tie to the even one.
  \<open>fl32\<close> rounds a real to binary32. A binary32 number is an integer of at most 24 bits
  times a power of two that is not smaller than \<open>2 ^ -149\<close>. With \<open>n\<close> the number of
  bits of the integer part of \<open>|x| * 2 ^ 149\<close>, the binary32 numbers next to \<open>x\<close> are
  the multiples of \<open>2 ^ (k - 149)\<close> for \<open>k = n - 24\<close>, and for \<open>k = 0\<close> when \<open>n\<close> is
  less than 24 (the subnormal numbers).

  The model stops at the finite numbers: a result beyond the largest binary32 number,
  which the source turns into an infinity, the infinities, NaN and the sign of a zero
  are not values of the model, and a division by zero of the source has no counterpart
  in it. Every operation is a single binary32 operation, neither fused with another one
  nor carried out in a wider format. The comparisons of the source are the comparisons
  of the reals. \<open>glm::vec2\<close>, \<open>glm::vec3\<close> and \<open>glm::vec4\<close> are component tuples.

  An index, a size or a count of the source is an unsigned 32-bit integer. It is a
  natural number here, and the model covers the runs in which no sum or product of such
  numbers reaches \<open>2 ^ 32\<close>.
\<close>

definition round_half_even :: "real \<Rightarrow> int" where
  "round_half_even x =
     (let f = \<lfloor>x\<rfloor>; d = x - of_int f
      in if d < 1 / 2 then f else if 1 / 2 < d then f + 1 else if even f then f else f + 1)"

definition fl32 :: "real \<Rightarrow> real" where
  "fl32 x =
     (let k = nat (bitlen \<lfloor>\<bar>x\<bar> * 2 ^ 149\<rfloor> - 24)
      in of_int (round_half_even (x * 2 ^ 149 / 2 ^ k)) * 2 ^ k / 2 ^ 149)"

text \<open>
  The operations \<open>+\<close>, \<open>-\<close>, \<open>*\<close> and \<open>/\<close> of two floats, and the conversion of an
  unsigned integer to a float.
\<close>

definition fadd :: "real \<Rightarrow> real \<Rightarrow> real" where
  "fadd a b = fl32 (a + b)"

definition fsub :: "real \<Rightarrow> real \<Rightarrow> real" where
  "fsub a b = fl32 (a - b)"

definition fmul :: "real \<Rightarrow> real \<Rightarrow> real" where
  "fmul a b = fl32 (a * b)"

definition fdiv :: "real \<Rightarrow> real \<Rightarrow> real" where
  "fdiv a b = fl32 (a / b)"

definition float_of_uint :: "nat \<Rightarrow> real" where
  "float_of_uint n = fl32 (real n)"

datatype vec3 = Vec3 (vec3_x: real) (vec3_y: real) (vec3_z: real)

datatype vec4 = Vec4 (vec4_x: real) (vec4_y: real) (vec4_z: real) (vec4_w: real)

subsection \<open>Clipping (PipelineThread.cpp, lines 274-348)\<close>

text \<open>
  The switch \<open>g_scFullTriangleClippingEnabled\<close> is declared in a header that is not
  part of the sources at hand; it is the first parameter. The function returns
  \<open>False\<close> for a triangle that is discarded.
\<close>

definition ExecuteFullTriangleClipping :: "bool \<Rightarrow> vec4 \<Rightarrow> vec4 \<Rightarrow> vec4 \<Rightarrow> bool" where
  "ExecuteFullTriangleClipping clippingEnabled v0Clip v1Clip v2Clip =
     (if clippingEnabled then
        (let allOutsideLeftPlane =
               (vec4_x v0Clip < - vec4_w v0Clip \<and>
                vec4_x v1Clip < - vec4_w v1Clip \<and>
                vec4_x v2Clip < - vec4_w v2Clip);
             allOutsideRightPlane =
               (vec4_x v0Clip > vec4_w v0Clip \<and>
                vec4_x v1Clip > vec4_w v1Clip \<and>
                vec4_x v2Clip > vec4_w v2Clip);
             allOutsideBottomPlane =
               (vec4_y v0Clip < - vec4_w v0Clip \<and>
                vec4_y v1Clip < - vec4_w v1Clip \<and>
                vec4_y v2Clip < - vec4_w v2Clip);
             allOutsideTopPlane =
               (vec4_y v0Clip > vec4_w v0Clip \<and>
                vec4_y v1Clip > vec4_w v1Clip \<and>
                vec4_y v2Clip > vec4_w v2Clip);
             allOutsideNearPlane =
               (vec4_z v0Clip < 0 \<and> vec4_z v1Clip < 0 \<and> vec4_z v2Clip < 0);
             allOutsideFarPlane =
               (vec4_z v0Clip > vec4_w v0Clip \<and>
                vec4_z v1Clip > vec4_w v1Clip \<and>
                vec4_z v2Clip > vec4_w v2Clip)
         in if allOutsideLeftPlane \<or> allOutsideRightPlane \<or> allOutsideBottomPlane \<or>
               allOutsideTopPlane \<or> allOutsideNearPlane \<or> allOutsideFarPlane
            then False
            else True)
      else True)"

text \<open>
  The clipper as a stage of the geometry loop of \<open>ProcessDrawcall\<close> (lines 61-69): a
  discarded triangle ends the iteration for this primitive (\<open>None\<close>); otherwise the
  same three clip-space vertices are the arguments of \<open>ExecuteTriangleSetupAndCull\<close>.
\<close>

definition clipper_stage :: "bool \<Rightarrow> vec4 \<Rightarrow> vec4 \<Rightarrow> vec4 \<Rightarrow> (vec4 \<times> vec4 \<times> vec4) option" where
  "clipper_stage clippingEnabled v0Clip v1Clip v2Clip =
     (if \<not> ExecuteFullTriangleClipping clippingEnabled v0Clip v1Clip v2Clip then None
      else Some (v0Clip, v1Clip, v2Clip))"

text \<open>
  The six clip planes as the specification names them, and what it is for a vertex to
  lie strictly outside one of them, each vertex against its own \<open>w\<close>.
\<close>

datatype clip_plane = LeftPlane | RightPlane | BottomPlane | TopPlane | NearPlane | FarPlane

fun strictly_outside :: "clip_plane \<Rightarrow> vec4 \<Rightarrow> bool" where
  "strictly_outside LeftPlane v = (vec4_x v < - vec4_w v)"
| "strictly_outside RightPlane v = (vec4_x v > vec4_w v)"
| "strictly_outside BottomPlane v = (vec4_y v < - vec4_w v)"
| "strictly_outside TopPlane v = (vec4_y v > vec4_w v)"
| "strictly_outside NearPlane v = (vec4_z v < 0)"
| "strictly_outside FarPlane v = (vec4_z v > vec4_w v)"

subsection \<open>Setup buffers (RenderEngine.cpp, lines 12-25)\<close>

text \<open>
  The setup buffers are arrays indexed by the draw-relative primitive index; each is a
  function from the element index to the element. \<open>Attribute4Deltas slot\<close> is the array
  of the vec4 attribute \<open>slot\<close>, and likewise for vec3 and vec2. The sizes of the
  allocations are given by \<open>alloc_EdgeCoefficients\<close> and the functions next to it.
\<close>

record Rect2D =
  m_MinX :: real
  m_MinY :: real
  m_MaxX :: real
  m_MaxY :: real

record SetupBuffers =
  m_pEdgeCoefficients :: "nat \<Rightarrow> vec3"
  m_pInterpolatedZValues :: "nat \<Rightarrow> vec3"
  m_pPrimBBoxes :: "nat \<Rightarrow> Rect2D"
  m_Attribute4Deltas :: "nat \<Rightarrow> nat \<Rightarrow> vec3"
  m_Attribute3Deltas :: "nat \<Rightarrow> nat \<Rightarrow> vec3"
  m_Attribute2Deltas :: "nat \<Rightarrow> nat \<Rightarrow> vec3"

subsection \<open>Triangle setup and cull (PipelineThread.cpp, lines 350-414)\<close>

text \<open>
  The macro \<open>TO_HOMOGEN(clipPos, width, height)\<close>. \<open>width\<close> and \<open>height\<close> are unsigned
  integers, converted to \<open>float\<close> for the product, which is taken from left to right.
\<close>

definition TO_HOMOGEN :: "vec4 \<Rightarrow> nat \<Rightarrow> nat \<Rightarrow> vec4" where
  "TO_HOMOGEN clipPos width height =
     Vec4 (fmul (fmul (float_of_uint width) (fadd (vec4_x clipPos) (vec4_w clipPos))) 0.5)
          (fmul (fmul (float_of_uint height) (fadd (vec4_y clipPos) (vec4_w clipPos))) 0.5)
          (vec4_z clipPos) (vec4_w clipPos)"

definition ExecuteTriangleSetupAndCull ::
  "nat \<Rightarrow> nat \<Rightarrow> nat \<Rightarrow> vec4 \<Rightarrow> vec4 \<Rightarrow> vec4 \<Rightarrow> SetupBuffers \<Rightarrow> bool \<times> SetupBuffers" where
  "ExecuteTriangleSetupAndCull fbWidth fbHeight primIdx v0Clip v1Clip v2Clip sb =
     (let v0Homogen = TO_HOMOGEN v0Clip fbWidth fbHeight;
          v1Homogen = TO_HOMOGEN v1Clip fbWidth fbHeight;
          v2Homogen = TO_HOMOGEN v2Clip fbWidth fbHeight;
          a0 = fsub (fmul (vec4_y v2Homogen) (vec4_w v1Homogen))
                    (fmul (vec4_y v1Homogen) (vec4_w v2Homogen));
          a1 = fsub (fmul (vec4_y v0Homogen) (vec4_w v2Homogen))
                    (fmul (vec4_y v2Homogen) (vec4_w v0Homogen));
          a2 = fsub (fmul (vec4_y v1Homogen) (vec4_w v0Homogen))
                    (fmul (vec4_y v0Homogen) (vec4_w v1Homogen));
          b0 = fsub (fmul (vec4_x v1Homogen) (vec4_w v2Homogen))
                    (fmul (vec4_x v2Homogen) (vec4_w v1Homogen));
          b1 = fsub (fmul (vec4_x v2Homogen) (vec4_w v0Homogen))
                    (fmul (vec4_x v0Homogen) (vec4_w v2Homogen));
          b2 = fsub (fmul (vec4_x v0Homogen) (vec4_w v1Homogen))
                    (fmul (vec4_x v1Homogen) (vec4_w v0Homogen));
          c0 = fsub (fmul (vec4_x v2Homogen) (vec4_y v1Homogen))
                    (fmul (vec4_x v1Homogen) (vec4_y v2Homogen));
          c1 = fsub (fmul (vec4_x v0Homogen) (vec4_y v2Homogen))
                    (fmul (vec4_x v2Homogen) (vec4_y v0Homogen));
          c2 = fsub (fmul (vec4_x v1Homogen) (vec4_y v0Homogen))
                    (fmul (vec4_x v0Homogen) (vec4_y v1Homogen));
          detM = fadd (fadd (fmul c0 (vec4_w v0Homogen)) (fmul c1 (vec4_w v1Homogen)))
                      (fmul c2 (vec4_w v2Homogen))
      in if detM > 0 then
           (True,
            sb\<lparr>m_pEdgeCoefficients :=
                 (m_pEdgeCoefficients sb)
                   (3 * primIdx + 0 := Vec3 a0 b0 c0,
                    3 * primIdx + 1 := Vec3 a1 b1 c1,
                    3 * primIdx + 2 := Vec3 a2 b2 c2),
               m_pInterpolatedZValues :=
                 (m_pInterpolatedZValues sb)
                   (primIdx := Vec3 (fsub (vec4_z v0Clip) (vec4_z v2Clip))
                                    (fsub (vec4_z v1Clip) (vec4_z v2Clip)) (vec4_z v2Clip))\<rparr>)
         else (False, sb))"

subsection \<open>The specification's words for triangle setup\<close>







subsection \<open>Attribute interpolation setup (PipelineThread.cpp, lines 1305-1352)\<close>

text \<open>
  \<open>VertexAttributes\<close> holds the arrays \<open>m_Attributes4\<close>, \<open>m_Attributes3\<close> and
  \<open>m_Attributes2\<close>, indexed by the attribute slot. \<open>ShaderMetadata\<close> holds the numbers
  of active slots. Both are declared in headers that are not part of the sources at
  hand; their fields are taken from the uses in the source.
\<close>

datatype vec2 = Vec2 (vec2_x: real) (vec2_y: real)

record VertexAttributes =
  m_Attributes4 :: "nat \<Rightarrow> vec4"
  m_Attributes3 :: "nat \<Rightarrow> vec3"
  m_Attributes2 :: "nat \<Rightarrow> vec2"

record ShaderMetadata =
  m_NumVec4Attributes :: nat
  m_NumVec3Attributes :: nat
  m_NumVec2Attributes :: nat

text \<open>The bodies of the three loops, for the attribute slot \<open>i\<close>.\<close>

definition setup_vec4 ::
  "nat \<Rightarrow> VertexAttributes \<Rightarrow> VertexAttributes \<Rightarrow> VertexAttributes \<Rightarrow> nat
     \<Rightarrow> SetupBuffers \<Rightarrow> SetupBuffers" where
  "setup_vec4 drawIDx vertexAttribs0 vertexAttribs1 vertexAttribs2 i sb =
     (let attrib0 = m_Attributes4 vertexAttribs0 i;
          attrib1 = m_Attributes4 vertexAttribs1 i;
          attrib2 = m_Attributes4 vertexAttribs2 i
      in sb\<lparr>m_Attribute4Deltas :=
              (m_Attribute4Deltas sb)
                (i := (m_Attribute4Deltas sb i)
                   (drawIDx * 4 + 0 :=
                      Vec3 (fsub (vec4_x attrib0) (vec4_x attrib2)) (fsub (vec4_x attrib1) (vec4_x attrib2))
                           (vec4_x attrib2),
                    drawIDx * 4 + 1 :=
                      Vec3 (fsub (vec4_y attrib0) (vec4_y attrib2)) (fsub (vec4_y attrib1) (vec4_y attrib2))
                           (vec4_y attrib2),
                    drawIDx * 4 + 2 :=
                      Vec3 (fsub (vec4_z attrib0) (vec4_z attrib2)) (fsub (vec4_z attrib1) (vec4_z attrib2))
                           (vec4_z attrib2),
                    drawIDx * 4 + 3 :=
                      Vec3 (fsub (vec4_w attrib0) (vec4_w attrib2)) (fsub (vec4_w attrib1) (vec4_w attrib2))
                           (vec4_w attrib2)))\<rparr>)"

definition setup_vec3 ::
  "nat \<Rightarrow> VertexAttributes \<Rightarrow> VertexAttributes \<Rightarrow> VertexAttributes \<Rightarrow> nat
     \<Rightarrow> SetupBuffers \<Rightarrow> SetupBuffers" where
  "setup_vec3 drawIDx vertexAttribs0 vertexAttribs1 vertexAttribs2 i sb =
     (let attrib0 = m_Attributes3 vertexAttribs0 i;
          attrib1 = m_Attributes3 vertexAttribs1 i;
          attrib2 = m_Attributes3 vertexAttribs2 i
      in sb\<lparr>m_Attribute3Deltas :=
              (m_Attribute3Deltas sb)
                (i := (m_Attribute3Deltas sb i)
                   (drawIDx * 3 + 0 :=
                      Vec3 (fsub (vec3_x attrib0) (vec3_x attrib2)) (fsub (vec3_x attrib1) (vec3_x attrib2))
                           (vec3_x attrib2),
                    drawIDx * 3 + 1 :=
                      Vec3 (fsub (vec3_y attrib0) (vec3_y attrib2)) (fsub (vec3_y attrib1) (vec3_y attrib2))
                           (vec3_y attrib2),
                    drawIDx * 3 + 2 :=
                      Vec3 (fsub (vec3_z attrib0) (vec3_z attrib2)) (fsub (vec3_z attrib1) (vec3_z attrib2))
                           (vec3_z attrib2)))\<rparr>)"

definition setup_vec2 ::
  "nat \<Rightarrow> VertexAttributes \<Rightarrow> VertexAttributes \<Rightarrow> VertexAttributes \<Rightarrow> nat
     \<Rightarrow> SetupBuffers \<Rightarrow> SetupBuffers" where
  "setup_vec2 drawIDx vertexAttribs0 vertexAttribs1 vertexAttribs2 i sb =
     (let attrib0 = m_Attributes2 vertexAttribs0 i;
          attrib1 = m_Attributes2 vertexAttribs1 i;
          attrib2 = m_Attributes2 vertexAttribs2 i
      in sb\<lparr>m_Attribute2Deltas :=
              (m_Attribute2Deltas sb)
                (i := (m_Attribute2Deltas sb i)
                   (drawIDx * 2 + 0 :=
                      Vec3 (fsub (vec2_x attrib0) (vec2_x attrib2)) (fsub (vec2_x attrib1) (vec2_x attrib2))
                           (vec2_x attrib2),
                    drawIDx * 2 + 1 :=
                      Vec3 (fsub (vec2_y attrib0) (vec2_y attrib2)) (fsub (vec2_y attrib1) (vec2_y attrib2))
                           (vec2_y attrib2)))\<rparr>)"

definition CalculateInterpolationCoefficients ::
  "ShaderMetadata \<Rightarrow> nat \<Rightarrow> VertexAttributes \<Rightarrow> VertexAttributes \<Rightarrow> VertexAttributes
     \<Rightarrow> SetupBuffers \<Rightarrow> SetupBuffers" where
  "CalculateInterpolationCoefficients md drawIDx vertexAttribs0 vertexAttribs1 vertexAttribs2 sb =
     (let sb4 = fold (setup_vec4 drawIDx vertexAttribs0 vertexAttribs1 vertexAttribs2)
                  [0..<m_NumVec4Attributes md] sb;
          sb3 = fold (setup_vec3 drawIDx vertexAttribs0 vertexAttribs1 vertexAttribs2)
                  [0..<m_NumVec3Attributes md] sb4
      in fold (setup_vec2 drawIDx vertexAttribs0 vertexAttribs1 vertexAttribs2)
           [0..<m_NumVec2Attributes md] sb3)"

subsection \<open>Four-lane values\<close>

text \<open>
  An \<open>__m128\<close> is the function from the lane (0 to 3) to its value; the operations of
  the source work lane by lane. A comparison yields a lane mask, a function from the
  lane to a truth value (all bits of the lane set, or none).
\<close>

type_synonym m128 = "nat \<Rightarrow> real"

type_synonym lanemask = "nat \<Rightarrow> bool"

definition mm_set_ps1 :: "real \<Rightarrow> m128" where
  "mm_set_ps1 a = (\<lambda>l. a)"

definition mm_setr_ps :: "real \<Rightarrow> real \<Rightarrow> real \<Rightarrow> real \<Rightarrow> m128" where
  "mm_setr_ps e0 e1 e2 e3 = (\<lambda>l. if l = 0 then e0 else if l = 1 then e1 else if l = 2 then e2 else e3)"

definition mm_add_ps :: "m128 \<Rightarrow> m128 \<Rightarrow> m128" where
  "mm_add_ps a b = (\<lambda>l. fadd (a l) (b l))"

definition mm_mul_ps :: "m128 \<Rightarrow> m128 \<Rightarrow> m128" where
  "mm_mul_ps a b = (\<lambda>l. fmul (a l) (b l))"

definition mm_cmple_ps :: "m128 \<Rightarrow> m128 \<Rightarrow> lanemask" where
  "mm_cmple_ps a b = (\<lambda>l. a l \<le> b l)"

definition mm_and_ps :: "lanemask \<Rightarrow> lanemask \<Rightarrow> lanemask" where
  "mm_and_ps a b = (\<lambda>l. a l \<and> b l)"

text \<open>\<open>_mm_movemask_ps\<close> of a lane mask: bit \<open>l\<close> is set when lane \<open>l\<close> is.\<close>

definition mm_movemask_ps :: "lanemask \<Rightarrow> nat" where
  "mm_movemask_ps m =
     (if m 0 then 1 else 0) + (if m 1 then 2 else 0) + (if m 2 then 4 else 0) + (if m 3 then 8 else 0)"

subsection \<open>Attribute interpolation (PipelineThread.cpp, lines 1416-1548)\<close>

text \<open>
  \<open>InterpolatedAttributes\<close> holds, for every attribute slot, the interpolated components
  as four-lane values. The function writes through \<open>pInterpolatedAttributes[i]\<close>, so the
  destination is the array that the pointer refers to, a function from the element to
  the record; the fields \<open>m_Vec4Attributes\<close>, \<open>m_Vec3Attributes\<close> and \<open>m_Vec2Attributes\<close>
  are arrays whose element 0 the arrow of the source selects. How many elements the
  array has is decided by the caller; the callers of the source are modelled under
  fragment shading below.
\<close>

record SSEVec4 =
  m_SSEX :: m128
  m_SSEY :: m128
  m_SSEZ :: m128
  m_SSEW :: m128

record InterpolatedAttributes =
  m_Vec4Attributes :: "nat \<Rightarrow> SSEVec4"
  m_Vec3Attributes :: "nat \<Rightarrow> SSEVec4"
  m_Vec2Attributes :: "nat \<Rightarrow> SSEVec4"

text \<open>
  The interpolation of one component from a delta triple, as each of the blocks of the
  source computes it: \<open>attrib.x * f0 + (attrib.y * f1 + attrib.z)\<close>.
\<close>

definition interpolate_component :: "vec3 \<Rightarrow> m128 \<Rightarrow> m128 \<Rightarrow> m128" where
  "interpolate_component attribVec3 ssef0XY ssef1XY =
     (let sseAttrib0 = mm_set_ps1 (vec3_x attribVec3);
          sseAttrib1 = mm_set_ps1 (vec3_y attribVec3);
          sseAttrib2 = mm_set_ps1 (vec3_z attribVec3)
      in mm_add_ps (mm_mul_ps sseAttrib0 ssef0XY)
           (mm_add_ps (mm_mul_ps sseAttrib1 ssef1XY) sseAttrib2))"

text \<open>
  The element indices of \<open>m_Attribute4Deltas[i]\<close>, \<open>m_Attribute3Deltas[i]\<close> and
  \<open>m_Attribute2Deltas[i]\<close> that the three loops bind references to (lines 1441-1444,
  1488-1490 and 1525-1527), in the order of the source.
\<close>

definition Attribute4Deltas_refs :: "nat \<Rightarrow> nat list" where
  "Attribute4Deltas_refs primIdx =
     [(primIdx * 4) + 0, (primIdx * 4) + 1, (primIdx * 4) + 2, (primIdx * 4) + 3]"

definition Attribute3Deltas_refs :: "nat \<Rightarrow> nat list" where
  "Attribute3Deltas_refs primIdx = [(primIdx * 3) + 0, (primIdx * 3) + 1, (primIdx * 3) + 2]"

definition Attribute2Deltas_refs :: "nat \<Rightarrow> nat list" where
  "Attribute2Deltas_refs primIdx = [(primIdx * 2) + 0, (primIdx * 2) + 1, (primIdx * 2) + 2]"

definition interp_vec4 ::
  "SetupBuffers \<Rightarrow> nat \<Rightarrow> m128 \<Rightarrow> m128 \<Rightarrow> nat
     \<Rightarrow> (nat \<Rightarrow> InterpolatedAttributes) \<Rightarrow> (nat \<Rightarrow> InterpolatedAttributes)" where
  "interp_vec4 sb primIdx ssef0XY ssef1XY i pInterpolatedAttributes =
     (let attrib0Vec3 = m_Attribute4Deltas sb i (Attribute4Deltas_refs primIdx ! 0);
          attrib1Vec3 = m_Attribute4Deltas sb i (Attribute4Deltas_refs primIdx ! 1);
          attrib2Vec3 = m_Attribute4Deltas sb i (Attribute4Deltas_refs primIdx ! 2);
          attrib3Vec3 = m_Attribute4Deltas sb i (Attribute4Deltas_refs primIdx ! 3);
          sseVec4AttribX = interpolate_component attrib0Vec3 ssef0XY ssef1XY;
          sseVec4AttribY = interpolate_component attrib1Vec3 ssef0XY ssef1XY;
          sseVec4AttribZ = interpolate_component attrib2Vec3 ssef0XY ssef1XY;
          sseVec3AttribW = interpolate_component attrib2Vec3 ssef0XY ssef1XY
      in pInterpolatedAttributes
           (i := (pInterpolatedAttributes i)
              \<lparr>m_Vec4Attributes :=
                 (m_Vec4Attributes (pInterpolatedAttributes i))
                   (0 := \<lparr>m_SSEX = sseVec4AttribX, m_SSEY = sseVec4AttribY,
                          m_SSEZ = sseVec4AttribZ, m_SSEW = sseVec3AttribW\<rparr>)\<rparr>))"

definition interp_vec3 ::
  "SetupBuffers \<Rightarrow> nat \<Rightarrow> m128 \<Rightarrow> m128 \<Rightarrow> nat
     \<Rightarrow> (nat \<Rightarrow> InterpolatedAttributes) \<Rightarrow> (nat \<Rightarrow> InterpolatedAttributes)" where
  "interp_vec3 sb primIdx ssef0XY ssef1XY i pInterpolatedAttributes =
     (let attrib0Vec3 = m_Attribute3Deltas sb i (Attribute3Deltas_refs primIdx ! 0);
          attrib1Vec3 = m_Attribute3Deltas sb i (Attribute3Deltas_refs primIdx ! 1);
          attrib2Vec3 = m_Attribute3Deltas sb i (Attribute3Deltas_refs primIdx ! 2);
          sseVec3AttribX = interpolate_component attrib0Vec3 ssef0XY ssef1XY;
          sseVec3AttribY = interpolate_component attrib1Vec3 ssef0XY ssef1XY;
          sseVec3AttribZ = interpolate_component attrib2Vec3 ssef0XY ssef1XY;
          old = m_Vec3Attributes (pInterpolatedAttributes i) 0
      in pInterpolatedAttributes
           (i := (pInterpolatedAttributes i)
              \<lparr>m_Vec3Attributes :=
                 (m_Vec3Attributes (pInterpolatedAttributes i))
                   (0 := old\<lparr>m_SSEX := sseVec3AttribX, m_SSEY := sseVec3AttribY,
                              m_SSEZ := sseVec3AttribZ\<rparr>)\<rparr>))"

definition interp_vec2 ::
  "SetupBuffers \<Rightarrow> nat \<Rightarrow> m128 \<Rightarrow> m128 \<Rightarrow> nat
     \<Rightarrow> (nat \<Rightarrow> InterpolatedAttributes) \<Rightarrow> (nat \<Rightarrow> InterpolatedAttributes)" where
  "interp_vec2 sb primIdx ssef0XY ssef1XY i pInterpolatedAttributes =
     (let attrib0Vec3 = m_Attribute2Deltas sb i (Attribute2Deltas_refs primIdx ! 0);
          attrib1Vec3 = m_Attribute2Deltas sb i (Attribute2Deltas_refs primIdx ! 1);
          attrib2Vec3 = m_Attribute2Deltas sb i (Attribute2Deltas_refs primIdx ! 2);
          sseVec2AttribX = interpolate_component attrib0Vec3 ssef0XY ssef1XY;
          sseVec2AttribY = interpolate_component attrib1Vec3 ssef0XY ssef1XY;
          old = m_Vec2Attributes (pInterpolatedAttributes i) 0
      in pInterpolatedAttributes
           (i := (pInterpolatedAttributes i)
              \<lparr>m_Vec2Attributes :=
                 (m_Vec2Attributes (pInterpolatedAttributes i))
                   (0 := old\<lparr>m_SSEX := sseVec2AttribX, m_SSEY := sseVec2AttribY\<rparr>)\<rparr>))"

definition InterpolateVertexAttributes ::
  "ShaderMetadata \<Rightarrow> SetupBuffers \<Rightarrow> nat \<Rightarrow> m128 \<Rightarrow> m128
     \<Rightarrow> (nat \<Rightarrow> InterpolatedAttributes) \<Rightarrow> (nat \<Rightarrow> InterpolatedAttributes)" where
  "InterpolateVertexAttributes md sb primIdx ssef0XY ssef1XY pInterpolatedAttributes =
     (let o4 = fold (interp_vec4 sb primIdx ssef0XY ssef1XY)
                 [0..<m_NumVec4Attributes md] pInterpolatedAttributes;
          o3 = fold (interp_vec3 sb primIdx ssef0XY ssef1XY) [0..<m_NumVec3Attributes md] o4
      in fold (interp_vec2 sb primIdx ssef0XY ssef1XY) [0..<m_NumVec2Attributes md] o3)"

text \<open>
  The allocations of the constructor of \<open>RenderEngine\<close> (lines 20-25): the number of
  elements of each delta array, for the configured \<open>m_MaxDrawIterationSize\<close>.
\<close>

definition alloc_Attribute4Deltas :: "nat \<Rightarrow> nat" where
  "alloc_Attribute4Deltas maxDrawIterationSize = maxDrawIterationSize * 4"

definition alloc_Attribute3Deltas :: "nat \<Rightarrow> nat" where
  "alloc_Attribute3Deltas maxDrawIterationSize = maxDrawIterationSize * 3"

definition alloc_Attribute2Deltas :: "nat \<Rightarrow> nat" where
  "alloc_Attribute2Deltas maxDrawIterationSize = maxDrawIterationSize * 2"

text \<open>The interpolation that the specification asks for: \<open>f\<^sub>0 (A\<^sub>0 - A\<^sub>2) + f\<^sub>1 (A\<^sub>1 - A\<^sub>2) + A\<^sub>2\<close>.\<close>

definition spec_interpolate :: "real \<Rightarrow> real \<Rightarrow> real \<Rightarrow> m128 \<Rightarrow> m128 \<Rightarrow> m128" where
  "spec_interpolate A0 A1 A2 f0 f1 = (\<lambda>l. f0 l * (A0 - A2) + f1 l * (A1 - A2) + A2)"

subsection \<open>Constants of the pipeline\<close>

text \<open>
  Modelled from the spec: the constants \<open>g_scPixelBlockSize\<close>, \<open>g_scSIMDWidth\<close>,
  \<open>g_scNumEdgeTestsPerRow\<close> and \<open>g_scQuadMask0\<close> to \<open>g_scQuadMask3\<close> are declared in a
  header that is not part of the sources at hand. The specification fixes the block
  size at 8 and the lane width at 4, and a row of a block is covered by groups of four
  contiguous samples, which makes two groups per row. The quad mask is the result of
  \<open>_mm_movemask_ps\<close>, whose bit \<open>l\<close> belongs to lane \<open>l\<close>, and the source compares
  \<open>m_QuadMask & g_scQuadMask\<^sub>l\<close> with \<open>1, 2, 4, 8\<close> (lines 1202-1209), so
  \<open>g_scQuadMask\<^sub>l\<close> is \<open>2\<^sup>l\<close>.
\<close>

definition g_scPixelBlockSize :: nat where
  "g_scPixelBlockSize = 8"

definition g_scSIMDWidth :: nat where
  "g_scSIMDWidth = 4"

definition g_scNumEdgeTestsPerRow :: nat where
  "g_scNumEdgeTestsPerRow = g_scPixelBlockSize div g_scSIMDWidth"

definition g_scQuadMask :: "nat \<Rightarrow> 16 word" where
  "g_scQuadMask l = 2 ^ l"

subsection \<open>Conversion of a colour channel (PipelineThread.cpp, lines 1246-1263)\<close>

text \<open>
  \<open>_mm_cvtps_epi32\<close> converts with the rounding mode of the MXCSR register; the source
  never changes the register, so the mode is the default one, round to nearest with
  ties to even. A value outside the range of a signed 32-bit integer converts to
  \<open>0x80000000\<close>.
\<close>

definition mm_cvtps_epi32 :: "real \<Rightarrow> 32 word" where
  "mm_cvtps_epi32 x =
     (let r = round_half_even x
      in if - (2 ^ 31) \<le> r \<and> r < 2 ^ 31 then word_of_int r else 0x80000000)"

text \<open>
  \<open>_mm_packus_epi32\<close> reads a lane as a signed 32-bit integer and saturates it to an
  unsigned 16-bit one; \<open>_mm_packus_epi16\<close> reads a lane as a signed 16-bit integer and
  saturates it to an unsigned 8-bit one.
\<close>

definition mm_packus_epi32 :: "32 word \<Rightarrow> 16 word" where
  "mm_packus_epi32 x =
     (if sint x < 0 then 0 else if 65535 < sint x then 65535 else word_of_int (sint x))"

definition mm_packus_epi16 :: "16 word \<Rightarrow> 8 word" where
  "mm_packus_epi16 x =
     (if sint x < 0 then 0 else if 255 < sint x then 255 else word_of_int (sint x))"

text \<open>
  One channel \<open>c\<close> of one sample, as \<open>UpdateColorBuffer\<close> converts it: multiply by
  \<open>255.f\<close> with \<open>_mm_mul_ps\<close>, a binary32 product, convert, pack twice.
\<close>

definition color_byte :: "real \<Rightarrow> 8 word" where
  "color_byte c = mm_packus_epi16 (mm_packus_epi32 (mm_cvtps_epi32 (fmul c 255)))"

text \<open>The conversion that the specification describes: a cast that truncates toward zero.\<close>

definition spec_cast_uint :: "real \<Rightarrow> int" where
  "spec_cast_uint x = (if 0 \<le> x then \<lfloor>x\<rfloor> else \<lceil>x\<rceil>)"

subsection \<open>Masked stores (PipelineThread.cpp, lines 1222-1277; RenderEngine.cpp, lines 475-513)\<close>

text \<open>
  The colour buffer is a function from the byte offset to the byte, the depth buffer a
  function from the element index to the depth. \<open>_mm_maskmoveu_si128\<close> stores the bytes
  whose mask byte has its top bit set; the masks of the source have all bits of a lane
  set or none, so the four bytes of lane \<open>l\<close> are stored when the lane mask holds at
  \<open>l\<close>. \<open>m_FragmentColors s\<close> holds the four channels of sample \<open>s\<close> in its lanes, and
  the 32-bit lane \<open>s\<close> of the stored value holds the four packed channels of sample \<open>s\<close>,
  channel 0 in the lowest byte.
\<close>

definition UpdateDepthBuffer ::
  "lanemask \<Rightarrow> m128 \<Rightarrow> nat \<Rightarrow> (nat \<Rightarrow> real) \<Rightarrow> (nat \<Rightarrow> real)" where
  "UpdateDepthBuffer sseDepthRes sseDepthValues pDepthBufferAddress depthBuffer =
     (\<lambda>a. if pDepthBufferAddress \<le> a \<and> a < pDepthBufferAddress + 4 \<and>
              sseDepthRes (a - pDepthBufferAddress)
           then sseDepthValues (a - pDepthBufferAddress)
           else depthBuffer a)"

definition UpdateColorBuffer ::
  "lanemask \<Rightarrow> (nat \<Rightarrow> m128) \<Rightarrow> nat \<Rightarrow> (nat \<Rightarrow> 8 word) \<Rightarrow> (nat \<Rightarrow> 8 word)" where
  "UpdateColorBuffer sseColorWriteMask m_FragmentColors pColorBufferAddress colorBuffer =
     (\<lambda>a. if pColorBufferAddress \<le> a \<and> a < pColorBufferAddress + 16 \<and>
              sseColorWriteMask ((a - pColorBufferAddress) div 4)
           then color_byte (m_FragmentColors ((a - pColorBufferAddress) div 4)
                                             ((a - pColorBufferAddress) mod 4))
           else colorBuffer a)"

text \<open>
  The member functions of \<open>RenderEngine\<close> with the same names compute the address from
  the sample position and store in the same way.
\<close>

definition RenderEngine_UpdateDepthBuffer ::
  "nat \<Rightarrow> lanemask \<Rightarrow> m128 \<Rightarrow> nat \<Rightarrow> nat \<Rightarrow> (nat \<Rightarrow> real) \<Rightarrow> (nat \<Rightarrow> real)" where
  "RenderEngine_UpdateDepthBuffer fbWidth sseWriteMask sseDepthValues sampleX sampleY depthBuffer =
     (let depthPitch = fbWidth
      in UpdateDepthBuffer sseWriteMask sseDepthValues (sampleX + sampleY * depthPitch) depthBuffer)"

definition RenderEngine_UpdateColorBuffer ::
  "nat \<Rightarrow> lanemask \<Rightarrow> (nat \<Rightarrow> m128) \<Rightarrow> nat \<Rightarrow> nat \<Rightarrow> (nat \<Rightarrow> 8 word) \<Rightarrow> (nat \<Rightarrow> 8 word)" where
  "RenderEngine_UpdateColorBuffer fbWidth sseWriteMask m_FragmentColors sampleX sampleY colorBuffer =
     (let colorPitch = fbWidth * 4
      in UpdateColorBuffer sseWriteMask m_FragmentColors (4 * sampleX + sampleY * colorPitch)
           colorBuffer)"

subsection \<open>Basis functions and depth (PipelineThread.cpp, lines 1354-1429)\<close>

text \<open>
  \<open>_mm_rcp_ps\<close> yields an approximation of the reciprocal; the approximation is the
  parameter \<open>rcp\<close>. The edge triples are passed as \<open>vec3\<close>, the source broadcasts
  their components to four lanes before the call. The sample position is an unsigned
  integer, converted to \<open>float\<close> before \<open>0.5f\<close> is added.
\<close>

definition ComputeParameterBasisFunctions ::
  "(real \<Rightarrow> real) \<Rightarrow> nat \<Rightarrow> nat \<Rightarrow> vec3 \<Rightarrow> vec3 \<Rightarrow> vec3 \<Rightarrow> m128 \<times> m128" where
  "ComputeParameterBasisFunctions rcp sampleX sampleY ee0 ee1 ee2 =
     (let sseX4 = mm_setr_ps (fadd (float_of_uint sampleX) 0.5) (fadd (float_of_uint sampleX) 1.5)
                    (fadd (float_of_uint sampleX) 2.5) (fadd (float_of_uint sampleX) 3.5);
          sseY4 = mm_set_ps1 (float_of_uint sampleY);
          sseF0XY4 = mm_add_ps (mm_set_ps1 (vec3_z ee0))
                       (mm_add_ps (mm_mul_ps sseY4 (mm_set_ps1 (vec3_y ee0)))
                                  (mm_mul_ps sseX4 (mm_set_ps1 (vec3_x ee0))));
          sseF1XY4 = mm_add_ps (mm_set_ps1 (vec3_z ee1))
                       (mm_add_ps (mm_mul_ps sseY4 (mm_set_ps1 (vec3_y ee1)))
                                  (mm_mul_ps sseX4 (mm_set_ps1 (vec3_x ee1))));
          sseF2XY4 = mm_add_ps (mm_set_ps1 (vec3_z ee2))
                       (mm_add_ps (mm_mul_ps sseY4 (mm_set_ps1 (vec3_y ee2)))
                                  (mm_mul_ps sseX4 (mm_set_ps1 (vec3_x ee2))));
          sseR4 = mm_add_ps sseF2XY4 (mm_add_ps sseF0XY4 sseF1XY4);
          sseR4' = (\<lambda>l. rcp (sseR4 l))
      in (mm_mul_ps sseR4' sseF0XY4, mm_mul_ps sseR4' sseF1XY4))"

definition InterpolateDepthValues :: "SetupBuffers \<Rightarrow> nat \<Rightarrow> m128 \<Rightarrow> m128 \<Rightarrow> m128" where
  "InterpolateDepthValues sb primIdx ssef0XY ssef1XY =
     (let attrib0Vec3 = m_pInterpolatedZValues sb primIdx;
          sseAttrib0 = mm_set_ps1 (vec3_x attrib0Vec3);
          sseAttrib1 = mm_set_ps1 (vec3_y attrib0Vec3);
          sseAttrib2 = mm_set_ps1 (vec3_z attrib0Vec3)
      in mm_add_ps sseAttrib2
           (mm_add_ps (mm_mul_ps sseAttrib0 ssef0XY) (mm_mul_ps sseAttrib1 ssef1XY)))"

text \<open>The depth of the four samples of the group at \<open>(sampleX, sampleY)\<close>.\<close>

definition group_depth :: "(real \<Rightarrow> real) \<Rightarrow> SetupBuffers \<Rightarrow> nat \<Rightarrow> nat \<Rightarrow> nat \<Rightarrow> m128" where
  "group_depth rcp sb primIdx sampleX sampleY =
     (let ee0 = m_pEdgeCoefficients sb (3 * primIdx + 0);
          ee1 = m_pEdgeCoefficients sb (3 * primIdx + 1);
          ee2 = m_pEdgeCoefficients sb (3 * primIdx + 2);
          f = ComputeParameterBasisFunctions rcp sampleX sampleY ee0 ee1 ee2
      in InterpolateDepthValues sb primIdx (fst f) (snd f))"

subsection \<open>Fragment shading (PipelineThread.cpp, lines 1013-1220)\<close>

text \<open>
  The state of fragment shading: the two buffers of the framebuffer, the locals
  \<open>interpolatedAttribs\<close> and \<open>fragmentOutput\<close> (the memory that the pointers passed to
  the fragment shader refer to), and a counter of the invocations of the fragment
  shader, which the source does not keep and which is here to state when the shader
  runs. The fragment shader is the parameter \<open>FS\<close>: from the interpolated attributes and
  the previous contents of \<open>fragmentOutput\<close> to the new contents (the constant buffer is
  fixed during a draw).
\<close>

record PixelState =
  m_pColorBuffer :: "nat \<Rightarrow> 8 word"
  m_pDepthBuffer :: "nat \<Rightarrow> real"
  interpolatedAttribs :: InterpolatedAttributes
  fragmentOutput :: "nat \<Rightarrow> m128"
  fs_invocations :: nat

datatype CoverageMaskType = TILE | BLOCK | QUAD

record CoverageMask =
  m_SampleX :: nat
  m_SampleY :: nat
  m_PrimIdx :: nat
  m_Type :: CoverageMaskType
  m_QuadMask :: "16 word"

text \<open>
  \<open>FragmentShadeBlock\<close> and \<open>FragmentShadeQuad\<close> declare \<open>interpolatedAttribs\<close> as
  one object of type \<open>InterpolatedAttributes\<close> (lines 1036 and 1134) and pass its address
  to \<open>InterpolateVertexAttributes\<close> (lines 1108 and 1193). The array that the pointer
  refers to has therefore one element, element 0. \<open>InterpolateVertexAttributes\<close> writes
  the element \<open>pInterpolatedAttributes[i]\<close> for every active slot \<open>i\<close> of every kind
  (lines 1478-1481, 1516-1518 and 1545-1546); \<open>written_elements\<close> lists these elements.
  A write to an element other than 0 goes past the end of the local object: the call
  has no defined result, and \<open>None\<close> stands for it.
\<close>

definition written_elements :: "ShaderMetadata \<Rightarrow> nat list" where
  "written_elements md =
     [0..<m_NumVec4Attributes md] @ [0..<m_NumVec3Attributes md] @ [0..<m_NumVec2Attributes md]"

definition interpolate_into_local ::
  "ShaderMetadata \<Rightarrow> SetupBuffers \<Rightarrow> nat \<Rightarrow> m128 \<Rightarrow> m128 \<Rightarrow> InterpolatedAttributes
     \<Rightarrow> InterpolatedAttributes option" where
  "interpolate_into_local md sb primIdx ssef0XY ssef1XY localAttribs =
     (if list_all (\<lambda>i. i < 1) (written_elements md)
      then Some (InterpolateVertexAttributes md sb primIdx ssef0XY ssef1XY
                   (\<lambda>i. localAttribs) 0)
      else None)"

text \<open>The body of the two loops of \<open>FragmentShadeBlock\<close> (lines 1071-1118).\<close>

definition shade_group ::
  "(real \<Rightarrow> real) \<Rightarrow> (InterpolatedAttributes \<Rightarrow> (nat \<Rightarrow> m128) \<Rightarrow> (nat \<Rightarrow> m128))
     \<Rightarrow> ShaderMetadata \<Rightarrow> SetupBuffers \<Rightarrow> nat \<Rightarrow> nat \<Rightarrow> nat \<Rightarrow> nat \<Rightarrow> PixelState
     \<Rightarrow> PixelState option" where
  "shade_group rcp FS md sb fbWidth primIdx sampleX sampleY st =
     (let colorPitch = fbWidth * 4;
          depthPitch = fbWidth;
          ee0 = m_pEdgeCoefficients sb (3 * primIdx + 0);
          ee1 = m_pEdgeCoefficients sb (3 * primIdx + 1);
          ee2 = m_pEdgeCoefficients sb (3 * primIdx + 2);
          f = ComputeParameterBasisFunctions rcp sampleX sampleY ee0 ee1 ee2;
          sseZInterpolated = InterpolateDepthValues sb primIdx (fst f) (snd f);
          pDepthBufferAddress = sampleX + sampleY * depthPitch;
          sseDepthCurrent = (\<lambda>l. m_pDepthBuffer st (pDepthBufferAddress + l));
          sseDepthRes = mm_cmple_ps sseZInterpolated sseDepthCurrent
      in if mm_movemask_ps sseDepthRes = 0 then Some st
         else
           (case interpolate_into_local md sb primIdx (fst f) (snd f) (interpolatedAttribs st) of
              None \<Rightarrow> None
            | Some attribs \<Rightarrow>
                (let out = FS attribs (fragmentOutput st);
                     pColorBufferAddress = 4 * sampleX + sampleY * colorPitch
                 in Some (st\<lparr>m_pColorBuffer :=
                                UpdateColorBuffer sseDepthRes out pColorBufferAddress
                                  (m_pColorBuffer st),
                              m_pDepthBuffer :=
                                UpdateDepthBuffer sseDepthRes sseZInterpolated pDepthBufferAddress
                                  (m_pDepthBuffer st),
                              interpolatedAttribs := attribs,
                              fragmentOutput := out,
                              fs_invocations := fs_invocations st + 1\<rparr>))))"

text \<open>
  \<open>FragmentShadeBlock\<close>: the rows \<open>py\<close> of the block, and in each row the groups \<open>px\<close>
  of four samples. The locals keep their contents from one group to the next. Nothing
  is defined after a group without a defined result.
\<close>

definition FragmentShadeBlock ::
  "(real \<Rightarrow> real) \<Rightarrow> (InterpolatedAttributes \<Rightarrow> (nat \<Rightarrow> m128) \<Rightarrow> (nat \<Rightarrow> m128))
     \<Rightarrow> ShaderMetadata \<Rightarrow> SetupBuffers \<Rightarrow> nat \<Rightarrow> nat \<Rightarrow> nat \<Rightarrow> nat \<Rightarrow> PixelState
     \<Rightarrow> PixelState option" where
  "FragmentShadeBlock rcp FS md sb fbWidth blockPosX blockPosY primIdx st =
     fold (\<lambda>py. fold (\<lambda>px r. Option.bind r
                               (shade_group rcp FS md sb fbWidth primIdx
                                  (blockPosX + (g_scSIMDWidth * px)) (blockPosY + py)))
                      [0..<g_scNumEdgeTestsPerRow])
          [0..<g_scPixelBlockSize] (Some st)"

text \<open>
  The lane mask that \<open>FragmentShadeQuad\<close> derives from the quad mask (lines 1202-1209):
  lane \<open>l\<close> compares \<open>m_QuadMask & g_scQuadMask\<^sub>l\<close> with \<open>2\<^sup>l\<close>.
\<close>

definition sseColorMask :: "16 word \<Rightarrow> lanemask" where
  "sseColorMask quadMask = (\<lambda>l. (quadMask AND g_scQuadMask l) = 2 ^ l)"

definition FragmentShadeQuad ::
  "(real \<Rightarrow> real) \<Rightarrow> (InterpolatedAttributes \<Rightarrow> (nat \<Rightarrow> m128) \<Rightarrow> (nat \<Rightarrow> m128))
     \<Rightarrow> ShaderMetadata \<Rightarrow> SetupBuffers \<Rightarrow> nat \<Rightarrow> CoverageMask \<Rightarrow> PixelState
     \<Rightarrow> PixelState option" where
  "FragmentShadeQuad rcp FS md sb fbWidth pMask st =
     (let colorPitch = fbWidth * 4;
          depthPitch = fbWidth;
          ee0 = m_pEdgeCoefficients sb (3 * m_PrimIdx pMask + 0);
          ee1 = m_pEdgeCoefficients sb (3 * m_PrimIdx pMask + 1);
          ee2 = m_pEdgeCoefficients sb (3 * m_PrimIdx pMask + 2);
          f = ComputeParameterBasisFunctions rcp (m_SampleX pMask) (m_SampleY pMask) ee0 ee1 ee2;
          sseZInterpolated = InterpolateDepthValues sb (m_PrimIdx pMask) (fst f) (snd f);
          pDepthBufferAddress = m_SampleX pMask + m_SampleY pMask * depthPitch;
          sseDepthCurrent = (\<lambda>l. m_pDepthBuffer st (pDepthBufferAddress + l));
          sseDepthRes = mm_cmple_ps sseZInterpolated sseDepthCurrent
      in if mm_movemask_ps sseDepthRes = 0 then Some st
         else
           (case interpolate_into_local md sb (m_PrimIdx pMask) (fst f) (snd f)
                   (interpolatedAttribs st) of
              None \<Rightarrow> None
            | Some attribs \<Rightarrow>
                (let out = FS attribs (fragmentOutput st);
                     sseWriteMask = mm_and_ps sseDepthRes (sseColorMask (m_QuadMask pMask));
                     pColorBufferAddress = 4 * m_SampleX pMask + m_SampleY pMask * colorPitch
                 in Some (st\<lparr>m_pColorBuffer :=
                                UpdateColorBuffer sseWriteMask out pColorBufferAddress
                                  (m_pColorBuffer st),
                              m_pDepthBuffer :=
                                UpdateDepthBuffer sseWriteMask sseZInterpolated pDepthBufferAddress
                                  (m_pDepthBuffer st),
                              interpolatedAttribs := attribs,
                              fragmentOutput := out,
                              fs_invocations := fs_invocations st + 1\<rparr>))))"

text \<open>
  The depth test of lane \<open>l\<close> of the group at \<open>(sampleX, sampleY)\<close> (lines 1099 and
  1184): the interpolated depth of the sample against the depth that the buffer holds
  for it when the group is shaded.
\<close>

definition depth_test ::
  "(real \<Rightarrow> real) \<Rightarrow> SetupBuffers \<Rightarrow> nat \<Rightarrow> PixelState \<Rightarrow> nat \<Rightarrow> nat \<Rightarrow> nat \<Rightarrow> nat \<Rightarrow> bool" where
  "depth_test rcp sb fbWidth st primIdx sampleX sampleY l =
     (group_depth rcp sb primIdx sampleX sampleY l
        \<le> m_pDepthBuffer st (sampleX + sampleY * fbWidth + l))"

text \<open>
  The attributes that the fragment shader receives for the group at \<open>(sampleX, sampleY)\<close>
  when the interpolation stays inside the local object.
\<close>

definition group_attribs ::
  "(real \<Rightarrow> real) \<Rightarrow> ShaderMetadata \<Rightarrow> SetupBuffers \<Rightarrow> nat \<Rightarrow> nat \<Rightarrow> nat \<Rightarrow> PixelState
     \<Rightarrow> InterpolatedAttributes" where
  "group_attribs rcp md sb primIdx sampleX sampleY st =
     (let ee0 = m_pEdgeCoefficients sb (3 * primIdx + 0);
          ee1 = m_pEdgeCoefficients sb (3 * primIdx + 1);
          ee2 = m_pEdgeCoefficients sb (3 * primIdx + 2);
          f = ComputeParameterBasisFunctions rcp sampleX sampleY ee0 ee1 ee2
      in InterpolateVertexAttributes md sb primIdx (fst f) (snd f)
           (\<lambda>i. interpolatedAttribs st) 0)"

subsection \<open>Shared state of the render engine (RenderEngine.cpp)\<close>

text \<open>
  \<open>RasterizerConfig\<close> is declared in a header that is not part of the sources at hand;
  its three fields below are the ones the source reads. The state that the geometry and
  rasterization phases share: the setup buffers, the queued flag of every tile
  (\<open>m_TileList[t].m_IsTileQueued\<close>), the bins \<open>m_BinList[t][w]\<close>, the coverage-mask
  buffers \<open>m_CoverageMasks[t][w]\<close> and the rasterizer queue. Tiles, bins and buffers are
  functions of the tile index and the worker index.

  Modelled from the spec: \<open>RasterizerQueue\<close>, \<open>CoverageMaskBuffer\<close> and
  \<open>GetGlobalTileIndex\<close> are declared in headers that are not part of the sources at
  hand. The queue is the sequence of the tile indices inserted so far, \<open>InsertTileIndex\<close>
  appends at the insertion cursor; a coverage-mask buffer is the sequence of the masks
  appended so far, in emission order; the global index of the tile \<open>(x, y)\<close> is
  \<open>y * tilesPerRow + x\<close>.
\<close>

record RasterizerConfig =
  m_TileSize :: nat
  m_MaxDrawIterationSize :: nat
  m_NumPipelineThreads :: nat

record EngineState =
  m_SetupBuffers :: SetupBuffers
  m_IsTileQueued :: "nat \<Rightarrow> bool"
  m_BinList :: "nat \<Rightarrow> nat \<Rightarrow> nat list"
  m_CoverageMasks :: "nat \<Rightarrow> nat \<Rightarrow> CoverageMask list"
  m_RasterizerQueue :: "nat list"

definition GetGlobalTileIndex :: "nat \<Rightarrow> nat \<Rightarrow> nat \<Rightarrow> nat" where
  "GetGlobalTileIndex numTilePerRow x y = y * numTilePerRow + x"

text \<open>
  \<open>SetRenderTargets\<close> (lines 126-165): the numbers of tiles per row and per column,
  the position of the tile \<open>(x, y)\<close>, and the capacity reserved for every bin.
\<close>

definition NumTilePerRow :: "RasterizerConfig \<Rightarrow> nat \<Rightarrow> nat" where
  "NumTilePerRow cfg fbWidth =
     nat \<lceil>fdiv (float_of_uint fbWidth) (float_of_uint (m_TileSize cfg))\<rceil>"

definition NumTilePerColumn :: "RasterizerConfig \<Rightarrow> nat \<Rightarrow> nat" where
  "NumTilePerColumn cfg fbHeight =
     nat \<lceil>fdiv (float_of_uint fbHeight) (float_of_uint (m_TileSize cfg))\<rceil>"

definition tile_PosX :: "RasterizerConfig \<Rightarrow> nat \<Rightarrow> nat \<Rightarrow> real" where
  "tile_PosX cfg fbWidth x = float_of_uint (min fbWidth (x * m_TileSize cfg))"

definition tile_PosY :: "RasterizerConfig \<Rightarrow> nat \<Rightarrow> nat \<Rightarrow> real" where
  "tile_PosY cfg fbHeight y = float_of_uint (min fbHeight (y * m_TileSize cfg))"

definition bin_reserve :: "RasterizerConfig \<Rightarrow> nat" where
  "bin_reserve cfg = m_MaxDrawIterationSize cfg div m_NumPipelineThreads cfg"

text \<open>
  \<open>ApplyPreDrawIterationStateInvalidations\<close> (lines 273-310): the flags are cleared,
  the bins are emptied, the coverage-mask buffers and the queue are reset.
\<close>

definition ApplyPreDrawIterationStateInvalidations :: "EngineState \<Rightarrow> EngineState" where
  "ApplyPreDrawIterationStateInvalidations s =
     s\<lparr>m_IsTileQueued := (\<lambda>t. False),
       m_BinList := (\<lambda>t w. []),
       m_CoverageMasks := (\<lambda>t w. []),
       m_RasterizerQueue := []\<rparr>"

text \<open>
  \<open>EnqueueTileForRasterization\<close> (lines 402-412): \<open>test_and_set\<close> returns the old
  flag and sets it, in one atomic step; the tile is inserted when the old flag was clear.
\<close>

definition EnqueueTileForRasterization :: "nat \<Rightarrow> EngineState \<Rightarrow> EngineState" where
  "EnqueueTileForRasterization tileIdx s =
     (if \<not> m_IsTileQueued s tileIdx
      then s\<lparr>m_IsTileQueued := (m_IsTileQueued s)(tileIdx := True),
             m_RasterizerQueue := m_RasterizerQueue s @ [tileIdx]\<rparr>
      else s)"

text \<open>
  \<open>BinPrimitiveForTile\<close> (lines 414-440). The two assertions of the function are
  checks of a debug build and are not part of the result: that the flag of the tile is
  set when the bin is not empty, and that the capacity of the bin is the same before and
  after the push.
\<close>

definition BinPrimitiveForTile :: "nat \<Rightarrow> nat \<Rightarrow> nat \<Rightarrow> EngineState \<Rightarrow> EngineState" where
  "BinPrimitiveForTile threadIdx tileIdx primIdx s =
     (let s1 = (if m_BinList s tileIdx threadIdx = [] then EnqueueTileForRasterization tileIdx s
                else s)
      in s1\<lparr>m_BinList :=
               (m_BinList s1)
                 (tileIdx := (m_BinList s1 tileIdx)
                    (threadIdx := m_BinList s1 tileIdx threadIdx @ [primIdx]))\<rparr>)"

definition AppendCoverageMask :: "nat \<Rightarrow> nat \<Rightarrow> CoverageMask \<Rightarrow> EngineState \<Rightarrow> EngineState" where
  "AppendCoverageMask threadIdx tileIdx cmask s =
     s\<lparr>m_CoverageMasks :=
         (m_CoverageMasks s)
           (tileIdx := (m_CoverageMasks s tileIdx)
              (threadIdx := m_CoverageMasks s tileIdx threadIdx @ [cmask]))\<rparr>"

subsection \<open>Hierarchical coverage test (PipelineThread.cpp, lines 467-572 and 670-762)\<close>

text \<open>
  The binner tests tiles of side \<open>m_TileSize\<close>, the rasterizer blocks of side
  \<open>g_scPixelBlockSize\<close>, with the same code; \<open>S\<close> is the side of the region. The
  corners of a region are numbered as in the source: 0 lower left (the origin), 1 lower
  right, 2 upper left, 3 upper right.

  The two tables of corner offsets hold the side of the region, converted to \<open>float\<close>.
  In the rasterizer they are compile-time constants of \<open>g_scPixelBlockSize\<close>. In the
  binner they are function-local statics (lines 471-485): they are initialised when the
  binner runs for the first time in the process, from the tile size of the engine that
  runs it, and they keep these values for every engine that the process creates later.
  \<open>scS\<close> is the side that the tables hold. For the binner it is the \<open>m_TileSize\<close> of the
  configuration when the process has had no engine with another tile size before.
\<close>

datatype CoverageTest = TrivialReject | TrivialAccept | Overlap

definition TRCornerOffsets :: "nat \<Rightarrow> nat \<Rightarrow> real \<times> real" where
  "TRCornerOffsets scS k =
     [(0, 0), (float_of_uint scS, 0), (0, float_of_uint scS),
      (float_of_uint scS, float_of_uint scS)] ! k"

definition TACornerOffsets :: "nat \<Rightarrow> nat \<Rightarrow> real \<times> real" where
  "TACornerOffsets scS k =
     [(- float_of_uint scS, - float_of_uint scS), (float_of_uint scS, - float_of_uint scS),
      (- float_of_uint scS, float_of_uint scS), (float_of_uint scS, float_of_uint scS)] ! k"

definition TRCorner :: "vec3 \<Rightarrow> nat" where
  "TRCorner ee =
     (if vec3_y ee \<ge> 0 then (if vec3_x ee \<ge> 0 then 3 else 2)
      else (if vec3_x ee \<ge> 0 then 1 else 0))"

definition TACorner :: "vec3 \<Rightarrow> nat" where
  "TACorner ee = 3 - TRCorner ee"

definition TACornerXOffset :: "nat \<Rightarrow> vec3 \<Rightarrow> real" where
  "TACornerXOffset scS ee = fmul (vec3_x ee) (fst (TACornerOffsets scS (TACorner ee)))"

definition TACornerYOffset :: "nat \<Rightarrow> vec3 \<Rightarrow> real" where
  "TACornerYOffset scS ee = fmul (vec3_y ee) (snd (TACornerOffsets scS (TACorner ee)))"

text \<open>
  \<open>edgeFunc\<close>: the edge function at the TR corner of the first region, whose origin is
  \<open>(posX, posY)\<close>. \<open>edgeFuncTR\<close>: the value stepped to the region that lies \<open>xx\<close>
  regions to the right and \<open>yy\<close> regions up; the products \<open>xx * S\<close> and \<open>yy * S\<close> are
  products of unsigned integers, converted to \<open>float\<close>. The sums are taken from left to
  right.
\<close>

definition edgeFunc :: "nat \<Rightarrow> vec3 \<Rightarrow> real \<Rightarrow> real \<Rightarrow> real" where
  "edgeFunc scS ee posX posY =
     fadd (fadd (fmul (vec3_x ee) (fadd posX (fst (TRCornerOffsets scS (TRCorner ee)))))
                (fmul (vec3_y ee) (fadd posY (snd (TRCornerOffsets scS (TRCorner ee))))))
          (vec3_z ee)"

definition edgeFuncTR :: "nat \<Rightarrow> nat \<Rightarrow> vec3 \<Rightarrow> real \<Rightarrow> real \<Rightarrow> nat \<Rightarrow> nat \<Rightarrow> real" where
  "edgeFuncTR scS S ee posX posY xx yy =
     fadd (fadd (edgeFunc scS ee posX posY) (fmul (vec3_x ee) (float_of_uint (xx * S))))
          (fmul (vec3_y ee) (float_of_uint (yy * S)))"

definition coverage_test ::
  "nat \<Rightarrow> nat \<Rightarrow> vec3 \<Rightarrow> vec3 \<Rightarrow> vec3 \<Rightarrow> real \<Rightarrow> real \<Rightarrow> nat \<Rightarrow> nat \<Rightarrow> CoverageTest" where
  "coverage_test scS S ee0 ee1 ee2 posX posY xx yy =
     (let edgeFuncTR0 = edgeFuncTR scS S ee0 posX posY xx yy;
          edgeFuncTR1 = edgeFuncTR scS S ee1 posX posY xx yy;
          edgeFuncTR2 = edgeFuncTR scS S ee2 posX posY xx yy;
          TRForEdge0 = (edgeFuncTR0 < 0);
          TRForEdge1 = (edgeFuncTR1 < 0);
          TRForEdge2 = (edgeFuncTR2 < 0)
      in if TRForEdge0 \<or> TRForEdge1 \<or> TRForEdge2 then TrivialReject
         else
           (let TAForEdge0 =
                  fadd (fadd edgeFuncTR0 (TACornerXOffset scS ee0)) (TACornerYOffset scS ee0) \<ge> 0;
                TAForEdge1 =
                  fadd (fadd edgeFuncTR1 (TACornerXOffset scS ee1)) (TACornerYOffset scS ee1) \<ge> 0;
                TAForEdge2 =
                  fadd (fadd edgeFuncTR2 (TACornerXOffset scS ee2)) (TACornerYOffset scS ee2) \<ge> 0
            in if TAForEdge0 \<and> TAForEdge1 \<and> TAForEdge2 then TrivialAccept else Overlap))"

subsection \<open>The specification's words for the coverage test\<close>


definition spec_E32 :: "vec3 \<Rightarrow> real \<times> real \<Rightarrow> real" where
  "spec_E32 ee pt = fadd (fadd (fmul (vec3_x ee) (fst pt)) (fmul (vec3_y ee) (snd pt))) (vec3_z ee)"








subsection \<open>Binner (PipelineThread.cpp, lines 416-609, 1279-1303)\<close>

text \<open>
  \<open>ComputeBoundingBox\<close> divides by the \<open>w\<close> of every vertex. For \<open>w = 0\<close> the source
  yields an infinity or NaN, which are not values of the model; the function is the
  function of the source for vertices with \<open>w\<close> other than 0.
\<close>

definition ComputeBoundingBox :: "vec4 \<Rightarrow> vec4 \<Rightarrow> vec4 \<Rightarrow> nat \<Rightarrow> nat \<Rightarrow> Rect2D" where
  "ComputeBoundingBox v0Clip v1Clip v2Clip width height =
     (let v0NDC = (fdiv (vec4_x v0Clip) (vec4_w v0Clip), fdiv (vec4_y v0Clip) (vec4_w v0Clip));
          v1NDC = (fdiv (vec4_x v1Clip) (vec4_w v1Clip), fdiv (vec4_y v1Clip) (vec4_w v1Clip));
          v2NDC = (fdiv (vec4_x v2Clip) (vec4_w v2Clip), fdiv (vec4_y v2Clip) (vec4_w v2Clip));
          v0Raster = (fmul (fmul (float_of_uint width) (fadd (fst v0NDC) 1)) 0.5,
                      fmul (fmul (float_of_uint height) (fadd (snd v0NDC) 1)) 0.5);
          v1Raster = (fmul (fmul (float_of_uint width) (fadd (fst v1NDC) 1)) 0.5,
                      fmul (fmul (float_of_uint height) (fadd (snd v1NDC) 1)) 0.5);
          v2Raster = (fmul (fmul (float_of_uint width) (fadd (fst v2NDC) 1)) 0.5,
                      fmul (fmul (float_of_uint height) (fadd (snd v2NDC) 1)) 0.5);
          xmin = min (fst v0Raster) (min (fst v1Raster) (fst v2Raster));
          xmax = max (fst v0Raster) (max (fst v1Raster) (fst v2Raster));
          ymin = min (snd v0Raster) (min (snd v1Raster) (snd v2Raster));
          ymax = max (snd v0Raster) (max (snd v1Raster) (snd v2Raster))
      in \<lparr>m_MinX = xmin, m_MinY = ymin, m_MaxX = xmax, m_MaxY = ymax\<rparr>)"

text \<open>
  The body of the two loops of \<open>ExecuteBinner\<close> (lines 540-606) for the tile
  \<open>(tx, ty)\<close>, which lies \<open>txx\<close> and \<open>tyy\<close> steps from the first tile of the bounding
  box, whose position is \<open>(tilePosX, tilePosY)\<close>. \<open>scTileSize\<close> is the tile size that
  the static tables of corner offsets hold.
\<close>

definition binner_tile ::
  "RasterizerConfig \<Rightarrow> nat \<Rightarrow> nat \<Rightarrow> nat \<Rightarrow> nat \<Rightarrow> vec3 \<Rightarrow> vec3 \<Rightarrow> vec3 \<Rightarrow> real \<Rightarrow> real
     \<Rightarrow> nat \<Rightarrow> nat \<Rightarrow> nat \<Rightarrow> nat \<Rightarrow> EngineState \<Rightarrow> EngineState" where
  "binner_tile cfg scTileSize numTilePerRow threadIdx primIdx ee0 ee1 ee2 tilePosX tilePosY
     tx ty txx tyy s =
     (case coverage_test scTileSize (m_TileSize cfg) ee0 ee1 ee2 tilePosX tilePosY txx tyy of
        TrivialReject \<Rightarrow> s
      | TrivialAccept \<Rightarrow>
          (let s1 = EnqueueTileForRasterization (GetGlobalTileIndex numTilePerRow tx ty) s;
               cmask = \<lparr>m_SampleX = nat \<lfloor>fadd tilePosX (float_of_uint (txx * m_TileSize cfg))\<rfloor>,
                       m_SampleY = nat \<lfloor>fadd tilePosY (float_of_uint (tyy * m_TileSize cfg))\<rfloor>,
                       m_PrimIdx = primIdx,
                       m_Type = TILE,
                       m_QuadMask = 0\<rparr>
           in AppendCoverageMask threadIdx (GetGlobalTileIndex numTilePerRow tx ty) cmask s1)
      | Overlap \<Rightarrow>
          BinPrimitiveForTile threadIdx (GetGlobalTileIndex numTilePerRow tx ty) primIdx s)"

text \<open>
  \<open>ExecuteBinner\<close>. The position of the first tile is read from
  \<open>m_TileList[GetGlobalTileIndex(minTileX, minTileY)]\<close>, the tile that
  \<open>SetRenderTargets\<close> has set up for \<open>(minTileX, minTileY)\<close>. The field \<open>m_QuadMask\<close>
  of a tile mask is not set by the source; it is 0 here and never read.
\<close>

definition ExecuteBinner ::
  "RasterizerConfig \<Rightarrow> nat \<Rightarrow> nat \<Rightarrow> nat \<Rightarrow> nat \<Rightarrow> nat \<Rightarrow> vec4 \<Rightarrow> vec4 \<Rightarrow> vec4
     \<Rightarrow> EngineState \<Rightarrow> EngineState" where
  "ExecuteBinner cfg scTileSize fbWidth fbHeight threadIdx primIdx v0Clip v1Clip v2Clip s =
     (let bbox = ComputeBoundingBox v0Clip v1Clip v2Clip fbWidth fbHeight
      in if m_MinX bbox \<ge> float_of_uint fbWidth \<or> m_MaxX bbox < 0 \<or>
            m_MinY bbox \<ge> float_of_uint fbHeight \<or> m_MaxY bbox < 0
         then s
         else
           (let bbox = bbox\<lparr>m_MinX := max 0 (m_MinX bbox),
                           m_MaxX := min (float_of_uint fbWidth) (m_MaxX bbox),
                           m_MinY := max 0 (m_MinY bbox),
                           m_MaxY := min (float_of_uint fbHeight) (m_MaxY bbox)\<rparr>;
                s1 = s\<lparr>m_SetupBuffers :=
                        (m_SetupBuffers s)
                          \<lparr>m_pPrimBBoxes :=
                             (m_pPrimBBoxes (m_SetupBuffers s))(primIdx := bbox)\<rparr>\<rparr>;
                minTileX = nat \<lfloor>fdiv (m_MinX bbox) (float_of_uint (m_TileSize cfg))\<rfloor>;
                maxTileX = nat \<lceil>fdiv (m_MaxX bbox) (float_of_uint (m_TileSize cfg))\<rceil>;
                minTileY = nat \<lfloor>fdiv (m_MinY bbox) (float_of_uint (m_TileSize cfg))\<rfloor>;
                maxTileY = nat \<lceil>fdiv (m_MaxY bbox) (float_of_uint (m_TileSize cfg))\<rceil>;
                ee0 = m_pEdgeCoefficients (m_SetupBuffers s) (3 * primIdx + 0);
                ee1 = m_pEdgeCoefficients (m_SetupBuffers s) (3 * primIdx + 1);
                ee2 = m_pEdgeCoefficients (m_SetupBuffers s) (3 * primIdx + 2);
                tilePosX = tile_PosX cfg fbWidth minTileX;
                tilePosY = tile_PosY cfg fbHeight minTileY
            in fold (\<lambda>tyy.
                 fold (\<lambda>txx.
                   binner_tile cfg scTileSize (NumTilePerRow cfg fbWidth) threadIdx primIdx
                     ee0 ee1 ee2 tilePosX tilePosY (minTileX + txx) (minTileY + tyy) txx tyy)
                   [0..<maxTileX - minTileX])
                 [0..<maxTileY - minTileY] s1))"

subsection \<open>Rasterizer (PipelineThread.cpp, lines 611-960)\<close>

text \<open>
  The test of one sample against one edge (lines 875-922). The macro
  \<open>EDGE_TEST_SHARED_EDGES\<close> selects the variant with the tie-breaking rule; whether it
  is defined is decided outside the sources at hand, so it is the parameter
  \<open>sharedEdges\<close>.
\<close>

definition sample_edge_test :: "bool \<Rightarrow> vec3 \<Rightarrow> real \<Rightarrow> real \<Rightarrow> bool" where
  "sample_edge_test sharedEdges ee x y =
     (let sseEdgeFunc = fadd (vec3_z ee) (fadd (fmul x (vec3_x ee)) (fmul y (vec3_y ee)))
      in if sharedEdges
         then sseEdgeFunc > 0 \<or>
              (\<not> sseEdgeFunc < 0 \<and> (vec3_x ee > 0 \<or> (vec3_y ee \<ge> 0 \<and> vec3_x ee = 0)))
         else sseEdgeFunc \<ge> 0)"

text \<open>The body of the two innermost loops (lines 827-947): the group \<open>px\<close> of row \<open>py\<close>.\<close>

definition raster_group ::
  "bool \<Rightarrow> nat \<Rightarrow> nat \<Rightarrow> nat \<Rightarrow> vec3 \<Rightarrow> vec3 \<Rightarrow> vec3 \<Rightarrow> real \<Rightarrow> real \<Rightarrow> nat \<Rightarrow> nat
     \<Rightarrow> EngineState \<Rightarrow> EngineState" where
  "raster_group sharedEdges threadIdx nextTileIdx primIdx ee0 ee1 ee2 blockPosX blockPosY py px s =
     (let sseY4 = fadd (fadd blockPosY (float_of_uint py)) 0.5;
          sseX4 = mm_setr_ps (fadd (fadd blockPosX (float_of_uint (g_scSIMDWidth * px))) 0.5)
                    (fadd (fadd blockPosX (float_of_uint (g_scSIMDWidth * px))) 1.5)
                    (fadd (fadd blockPosX (float_of_uint (g_scSIMDWidth * px))) 2.5)
                    (fadd (fadd blockPosX (float_of_uint (g_scSIMDWidth * px))) 3.5);
          sseEdgeFuncResult =
            (\<lambda>l. sample_edge_test sharedEdges ee0 (sseX4 l) sseY4 \<and>
                 sample_edge_test sharedEdges ee1 (sseX4 l) sseY4 \<and>
                 sample_edge_test sharedEdges ee2 (sseX4 l) sseY4);
          maskInt = mm_movemask_ps sseEdgeFuncResult
      in if maskInt \<noteq> 0
         then AppendCoverageMask threadIdx nextTileIdx
                \<lparr>m_SampleX = nat \<lfloor>fadd blockPosX (float_of_uint (g_scSIMDWidth * px))\<rfloor>,
                 m_SampleY = nat \<lfloor>fadd blockPosY (float_of_uint py)\<rfloor>,
                 m_PrimIdx = primIdx,
                 m_Type = QUAD,
                 m_QuadMask = of_nat maskInt\<rparr> s
         else s)"

text \<open>
  The body of the two block loops (lines 730-951) for the block that lies \<open>bxx\<close> and
  \<open>byy\<close> steps from the first block of the bounding box inside the tile.
\<close>

definition raster_block ::
  "bool \<Rightarrow> nat \<Rightarrow> nat \<Rightarrow> nat \<Rightarrow> vec3 \<Rightarrow> vec3 \<Rightarrow> vec3 \<Rightarrow> real \<Rightarrow> real \<Rightarrow> nat \<Rightarrow> nat
     \<Rightarrow> EngineState \<Rightarrow> EngineState" where
  "raster_block sharedEdges threadIdx nextTileIdx primIdx ee0 ee1 ee2
     firstBlockWithinBBoxX firstBlockWithinBBoxY bxx byy s =
     (case coverage_test g_scPixelBlockSize g_scPixelBlockSize ee0 ee1 ee2
             firstBlockWithinBBoxX firstBlockWithinBBoxY bxx byy of
        TrivialReject \<Rightarrow> s
      | TrivialAccept \<Rightarrow>
          AppendCoverageMask threadIdx nextTileIdx
            \<lparr>m_SampleX =
               nat \<lfloor>fadd firstBlockWithinBBoxX (float_of_uint (bxx * g_scPixelBlockSize))\<rfloor>,
             m_SampleY =
               nat \<lfloor>fadd firstBlockWithinBBoxY (float_of_uint (byy * g_scPixelBlockSize))\<rfloor>,
             m_PrimIdx = primIdx,
             m_Type = BLOCK,
             m_QuadMask = 0\<rparr> s
      | Overlap \<Rightarrow>
          (let blockPosX = fadd firstBlockWithinBBoxX (float_of_uint (bxx * g_scPixelBlockSize));
               blockPosY = fadd firstBlockWithinBBoxY (float_of_uint (byy * g_scPixelBlockSize))
           in fold (\<lambda>py.
                fold (\<lambda>px. raster_group sharedEdges threadIdx nextTileIdx primIdx ee0 ee1 ee2
                              blockPosX blockPosY py px)
                  [0..<g_scNumEdgeTestsPerRow])
                [0..<g_scPixelBlockSize] s))"

text \<open>The body of the loop over the primitives of one bin (lines 642-956).\<close>

definition rasterize_primitive ::
  "RasterizerConfig \<Rightarrow> bool \<Rightarrow> nat \<Rightarrow> nat \<Rightarrow> real \<Rightarrow> real \<Rightarrow> nat \<Rightarrow> EngineState \<Rightarrow> EngineState" where
  "rasterize_primitive cfg sharedEdges threadIdx nextTileIdx tilePosX tilePosY primIdx s =
     (let bbox = m_pPrimBBoxes (m_SetupBuffers s) primIdx;
          bbox = bbox\<lparr>m_MinX := max (m_MinX bbox) tilePosX,
                     m_MinY := max (m_MinY bbox) tilePosY,
                     m_MaxX := min (m_MaxX bbox) (fadd tilePosX (float_of_uint (m_TileSize cfg))),
                     m_MaxY := min (m_MaxY bbox) (fadd tilePosY (float_of_uint (m_TileSize cfg)))\<rparr>;
          minBlockX = nat \<lfloor>fdiv (fsub (m_MinX bbox) tilePosX) (float_of_uint g_scPixelBlockSize)\<rfloor>;
          maxBlockX = nat \<lceil>fdiv (fsub (m_MaxX bbox) tilePosX) (float_of_uint g_scPixelBlockSize)\<rceil>;
          minBlockY = nat \<lfloor>fdiv (fsub (m_MinY bbox) tilePosY) (float_of_uint g_scPixelBlockSize)\<rfloor>;
          maxBlockY = nat \<lceil>fdiv (fsub (m_MaxY bbox) tilePosY) (float_of_uint g_scPixelBlockSize)\<rceil>;
          ee0 = m_pEdgeCoefficients (m_SetupBuffers s) (3 * primIdx + 0);
          ee1 = m_pEdgeCoefficients (m_SetupBuffers s) (3 * primIdx + 1);
          ee2 = m_pEdgeCoefficients (m_SetupBuffers s) (3 * primIdx + 2);
          firstBlockWithinBBoxX = fadd tilePosX (float_of_uint (minBlockX * g_scPixelBlockSize));
          firstBlockWithinBBoxY = fadd tilePosY (float_of_uint (minBlockY * g_scPixelBlockSize))
      in fold (\<lambda>byy.
           fold (\<lambda>bxx. raster_block sharedEdges threadIdx nextTileIdx primIdx ee0 ee1 ee2
                          firstBlockWithinBBoxX firstBlockWithinBBoxY bxx byy)
             [0..<maxBlockX - minBlockX])
           [0..<maxBlockY - minBlockY] s)"

text \<open>
  \<open>ExecuteRasterizer\<close> for one tile fetched from the queue: the bins of all workers in
  order, the primitives of each bin in order. The position of the tile is the one that
  \<open>SetRenderTargets\<close> has set up for its index. Which tiles a worker fetches is decided
  by the queue that the workers share; the worker rasterizes the tiles it has fetched in
  the order of fetching.
\<close>

definition ExecuteRasterizer_tile ::
  "RasterizerConfig \<Rightarrow> bool \<Rightarrow> nat \<Rightarrow> nat \<Rightarrow> nat \<Rightarrow> nat \<Rightarrow> EngineState \<Rightarrow> EngineState" where
  "ExecuteRasterizer_tile cfg sharedEdges fbWidth fbHeight threadIdx nextTileIdx s =
     (let tilePosX = tile_PosX cfg fbWidth (nextTileIdx mod NumTilePerRow cfg fbWidth);
          tilePosY = tile_PosY cfg fbHeight (nextTileIdx div NumTilePerRow cfg fbWidth)
      in fold (\<lambda>i s'.
           fold (rasterize_primitive cfg sharedEdges threadIdx nextTileIdx tilePosX tilePosY)
             (m_BinList s' nextTileIdx i) s')
           [0..<m_NumPipelineThreads cfg] s)"

definition ExecuteRasterizer ::
  "RasterizerConfig \<Rightarrow> bool \<Rightarrow> nat \<Rightarrow> nat \<Rightarrow> nat \<Rightarrow> nat list \<Rightarrow> EngineState \<Rightarrow> EngineState" where
  "ExecuteRasterizer cfg sharedEdges fbWidth fbHeight threadIdx fetched s =
     fold (ExecuteRasterizer_tile cfg sharedEdges fbWidth fbHeight threadIdx) fetched s"

subsection \<open>Calls of the binner as events\<close>

text \<open>
  During the geometry phase the workers run concurrently. The flag of a tile is changed
  only by \<open>test_and_set\<close>, the queue only by \<open>InsertTileIndex\<close>, both atomic, and
  the bin \<open>m_BinList[t][w]\<close> and the buffer \<open>m_CoverageMasks[t][w]\<close> only by the worker
  \<open>w\<close>. A run of the phase is therefore an interleaving of the calls that the loop body
  of the binner makes, each taken as one step: for a trivially accepted tile the call
  of \<open>EnqueueTileForRasterization\<close> followed by \<open>AppendCoverageMask\<close> (lines 581-593),
  for an overlapped tile the call of \<open>BinPrimitiveForTile\<close> (lines 601-604).
\<close>

datatype BinnerEvent =
  EvTrivialAccept nat nat CoverageMask
| EvBin nat nat nat

fun apply_event :: "BinnerEvent \<Rightarrow> EngineState \<Rightarrow> EngineState" where
  "apply_event (EvTrivialAccept threadIdx tileIdx cmask) s =
     AppendCoverageMask threadIdx tileIdx cmask (EnqueueTileForRasterization tileIdx s)"
| "apply_event (EvBin threadIdx tileIdx primIdx) s = BinPrimitiveForTile threadIdx tileIdx primIdx s"

fun event_tile :: "BinnerEvent \<Rightarrow> nat" where
  "event_tile (EvTrivialAccept threadIdx tileIdx cmask) = tileIdx"
| "event_tile (EvBin threadIdx tileIdx primIdx) = tileIdx"

fun is_trivial_accept :: "nat \<Rightarrow> BinnerEvent \<Rightarrow> bool" where
  "is_trivial_accept t (EvTrivialAccept threadIdx tileIdx cmask) = (tileIdx = t)"
| "is_trivial_accept t (EvBin threadIdx tileIdx primIdx) = False"

fun is_bin_push :: "nat \<Rightarrow> BinnerEvent \<Rightarrow> bool" where
  "is_bin_push t (EvTrivialAccept threadIdx tileIdx cmask) = False"
| "is_bin_push t (EvBin threadIdx tileIdx primIdx) = (tileIdx = t)"

text \<open>The primitive indices that the events push into the bin \<open>m_BinList[t][w]\<close>, in order.\<close>

fun pushes :: "nat \<Rightarrow> nat \<Rightarrow> BinnerEvent list \<Rightarrow> nat list" where
  "pushes t w [] = []"
| "pushes t w (EvBin threadIdx tileIdx primIdx # evs) =
     (if tileIdx = t \<and> threadIdx = w then primIdx # pushes t w evs else pushes t w evs)"
| "pushes t w (EvTrivialAccept threadIdx tileIdx cmask # evs) = pushes t w evs"

text \<open>The event of the loop body of the binner for one tile, if any.\<close>

definition binner_tile_events ::
  "RasterizerConfig \<Rightarrow> nat \<Rightarrow> nat \<Rightarrow> nat \<Rightarrow> nat \<Rightarrow> vec3 \<Rightarrow> vec3 \<Rightarrow> vec3 \<Rightarrow> real \<Rightarrow> real
     \<Rightarrow> nat \<Rightarrow> nat \<Rightarrow> nat \<Rightarrow> nat \<Rightarrow> BinnerEvent list" where
  "binner_tile_events cfg scTileSize numTilePerRow threadIdx primIdx ee0 ee1 ee2 tilePosX tilePosY
     tx ty txx tyy =
     (case coverage_test scTileSize (m_TileSize cfg) ee0 ee1 ee2 tilePosX tilePosY txx tyy of
        TrivialReject \<Rightarrow> []
      | TrivialAccept \<Rightarrow>
          [EvTrivialAccept threadIdx (GetGlobalTileIndex numTilePerRow tx ty)
             \<lparr>m_SampleX = nat \<lfloor>fadd tilePosX (float_of_uint (txx * m_TileSize cfg))\<rfloor>,
              m_SampleY = nat \<lfloor>fadd tilePosY (float_of_uint (tyy * m_TileSize cfg))\<rfloor>,
              m_PrimIdx = primIdx,
              m_Type = TILE,
              m_QuadMask = 0\<rparr>]
      | Overlap \<Rightarrow> [EvBin threadIdx (GetGlobalTileIndex numTilePerRow tx ty) primIdx])"

subsection \<open>Draw and the geometry phase (RenderEngine.cpp, lines 186-254; PipelineThread.cpp, lines 38-77)\<close>

text \<open>
  The loop over the workers inside one draw iteration (lines 209-236): every worker gets
  \<open>primsPerThread\<close> primitives, the last one \<open>perIterationRemainder\<close> more;
  \<open>drawElemsPrev\<close> is carried from one worker to the next.
\<close>

fun assign_ranges :: "nat \<Rightarrow> nat \<Rightarrow> nat \<Rightarrow> nat list \<Rightarrow> nat \<Rightarrow> (nat \<times> nat) list" where
  "assign_ranges numThreads primsPerThread perIterationRemainder [] drawElemsPrev = []"
| "assign_ranges numThreads primsPerThread perIterationRemainder (threadIdx # rest) drawElemsPrev =
     (let currentDrawElemsStart = drawElemsPrev;
          currentDrawElemsEnd =
            (if threadIdx = numThreads - 1
             then currentDrawElemsStart + primsPerThread + perIterationRemainder
             else currentDrawElemsStart + primsPerThread)
      in (currentDrawElemsStart, currentDrawElemsEnd)
         # assign_ranges numThreads primsPerThread perIterationRemainder rest currentDrawElemsEnd)"

text \<open>
  The ranges \<open>(m_ElemsStart, m_ElemsEnd)\<close> of the workers for the draw iteration that
  starts at \<open>drawElemsPrev\<close> with \<open>numRemainingPrims\<close> primitives left (lines 204-207).
\<close>

definition iteration_ranges :: "RasterizerConfig \<Rightarrow> nat \<Rightarrow> nat \<Rightarrow> (nat \<times> nat) list" where
  "iteration_ranges cfg drawElemsPrev numRemainingPrims =
     (let iterationSize =
            (if numRemainingPrims \<ge> m_MaxDrawIterationSize cfg then m_MaxDrawIterationSize cfg
             else numRemainingPrims);
          perIterationRemainder = iterationSize mod m_NumPipelineThreads cfg;
          primsPerThread = iterationSize div m_NumPipelineThreads cfg
      in assign_ranges (m_NumPipelineThreads cfg) primsPerThread perIterationRemainder
           [0..<m_NumPipelineThreads cfg] drawElemsPrev)"

text \<open>
  What is fixed during a draw: the configuration, the tile size that the static tables
  of the binner hold, the switches of the two optional stages, the capacity of the
  vertex cache, the size of the framebuffer, the shader metadata, the vertex shader (as
  a function of the vertex index), the index buffer and the vertex offset.
\<close>

record DrawContext =
  ctx_config :: RasterizerConfig
  ctx_scTileSize :: nat
  ctx_cacheEnabled :: bool
  ctx_cacheSize :: nat
  ctx_clippingEnabled :: bool
  ctx_fbWidth :: nat
  ctx_fbHeight :: nat
  ctx_metadata :: ShaderMetadata
  ctx_VS :: "32 word \<Rightarrow> vec4 \<times> VertexAttributes"
  ctx_indexBuffer :: "nat \<Rightarrow> 32 word"
  ctx_vertexOffset :: nat

text \<open>
  The body of the geometry loop of \<open>ProcessDrawcall\<close> (lines 52-76) for the primitive
  \<open>primIdx\<close> with the draw-relative index \<open>drawIdx\<close>: vertex shading, which ends with
  the call of \<open>CalculateInterpolationCoefficients\<close> (line 240), then the clipper, then
  triangle setup, then the binner. The vertex cache belongs to the worker.
\<close>

definition process_primitive ::
  "DrawContext \<Rightarrow> nat \<Rightarrow> nat \<Rightarrow> nat
     \<Rightarrow> (vec4, VertexAttributes) VertexCache \<times> EngineState
     \<Rightarrow> (vec4, VertexAttributes) VertexCache \<times> EngineState" where
  "process_primitive ctx threadIdx primIdx drawIdx cs =
     (let (cache, v0, v1, v2) =
            ExecuteVertexShader (ctx_cacheEnabled ctx) (ctx_cacheSize ctx) (ctx_VS ctx)
              (ctx_indexBuffer ctx) (ctx_vertexOffset ctx) primIdx (fst cs);
          v0Clip = fst v0; v1Clip = fst v1; v2Clip = fst v2;
          s1 = (snd cs)\<lparr>m_SetupBuffers :=
                  CalculateInterpolationCoefficients (ctx_metadata ctx) drawIdx
                    (snd v0) (snd v1) (snd v2) (m_SetupBuffers (snd cs))\<rparr>
      in if \<not> ExecuteFullTriangleClipping (ctx_clippingEnabled ctx) v0Clip v1Clip v2Clip
         then (cache, s1)
         else
           (let r = ExecuteTriangleSetupAndCull (ctx_fbWidth ctx) (ctx_fbHeight ctx) drawIdx
                      v0Clip v1Clip v2Clip (m_SetupBuffers s1);
                s2 = s1\<lparr>m_SetupBuffers := snd r\<rparr>
            in if \<not> fst r then (cache, s2)
               else (cache,
                     ExecuteBinner (ctx_config ctx) (ctx_scTileSize ctx) (ctx_fbWidth ctx)
                       (ctx_fbHeight ctx) threadIdx drawIdx v0Clip v1Clip v2Clip s2)))"

text \<open>
  The geometry loop of the worker \<open>threadIdx\<close> for its range: \<open>primIdx\<close> runs from
  \<open>m_ElemsStart\<close> to \<open>m_ElemsEnd\<close>, \<open>drawIdx\<close> starts at
  \<open>m_ElemsStart % m_MaxDrawIterationSize\<close> and is incremented with it.
\<close>

definition ProcessDrawcall_geometry ::
  "DrawContext \<Rightarrow> nat \<Rightarrow> nat \<times> nat
     \<Rightarrow> (vec4, VertexAttributes) VertexCache \<times> EngineState
     \<Rightarrow> (vec4, VertexAttributes) VertexCache \<times> EngineState" where
  "ProcessDrawcall_geometry ctx threadIdx elems cs =
     fold (\<lambda>primIdx.
            process_primitive ctx threadIdx primIdx
              (fst elems mod m_MaxDrawIterationSize (ctx_config ctx) + (primIdx - fst elems)))
       [fst elems..<snd elems] cs"

text \<open>
  One schedule of the geometry phase of a draw iteration: the workers run one after the
  other, worker 0 first. \<open>caches\<close> holds the vertex cache of every worker.
\<close>

definition geometry_phase_in_turn ::
  "DrawContext \<Rightarrow> (nat \<times> nat) list
     \<Rightarrow> (nat \<Rightarrow> (vec4, VertexAttributes) VertexCache) \<times> EngineState
     \<Rightarrow> (nat \<Rightarrow> (vec4, VertexAttributes) VertexCache) \<times> EngineState" where
  "geometry_phase_in_turn ctx ranges cs =
     fold (\<lambda>threadIdx (caches, s).
            (let r = ProcessDrawcall_geometry ctx threadIdx (ranges ! threadIdx)
                       (caches threadIdx, s)
             in (caches(threadIdx := fst r), snd r)))
       [0..<length ranges] cs"

text \<open>
  A state \<open>s'\<close> is reached from \<open>s\<close> by calls of the binner: by a sequence of the events
  above, and with any contents of the setup buffers, which the events do not touch.
\<close>

definition event_run :: "EngineState \<Rightarrow> EngineState \<Rightarrow> bool" where
  "event_run s s' = (\<exists>evs sb. s' = (fold apply_event evs s)\<lparr>m_SetupBuffers := sb\<rparr>)"

subsection \<open>A draw of three triangles\<close>

text \<open>
  A framebuffer of 64 by 64 pixels with one tile of side 64, which the static tables of
  the binner hold as well, two workers, draw iterations of at most three primitives, no
  vertex attributes, the vertex cache switched off. The
  index buffer repeats the indices 0, 1, 2; the three vertices are the corners
  \<open>(-1, -1)\<close>, \<open>(-1, 1)\<close> and \<open>(1, -1)\<close> of the screen at depth \<open>1/2\<close>. Every triangle of
  a draw is this triangle, which covers half of the tile.
\<close>

definition ex_cfg :: RasterizerConfig where
  "ex_cfg = \<lparr>m_TileSize = 64, m_MaxDrawIterationSize = 3, m_NumPipelineThreads = 2\<rparr>"

definition ex_attribs :: VertexAttributes where
  "ex_attribs = \<lparr>m_Attributes4 = (\<lambda>i. Vec4 0 0 0 0), m_Attributes3 = (\<lambda>i. Vec3 0 0 0),
                  m_Attributes2 = (\<lambda>i. Vec2 0 0)\<rparr>"

definition ex_VS :: "32 word \<Rightarrow> vec4 \<times> VertexAttributes" where
  "ex_VS v = (if v = 0 then Vec4 (-1) (-1) (1/2) 1
              else if v = 1 then Vec4 (-1) 1 (1/2) 1
              else Vec4 1 (-1) (1/2) 1, ex_attribs)"

definition ex_ctx :: DrawContext where
  "ex_ctx = \<lparr>ctx_config = ex_cfg, ctx_scTileSize = 64, ctx_cacheEnabled = False,
             ctx_cacheSize = 16,
             ctx_clippingEnabled = True, ctx_fbWidth = 64, ctx_fbHeight = 64,
             ctx_metadata = \<lparr>m_NumVec4Attributes = 0, m_NumVec3Attributes = 0,
                              m_NumVec2Attributes = 0\<rparr>,
             ctx_VS = ex_VS, ctx_indexBuffer = (\<lambda>n. of_nat (n mod 3)), ctx_vertexOffset = 0\<rparr>"

subsection \<open>A draw of one triangle over four tiles\<close>





section \<open>Properties of the vertex-shader cache\<close>

lemma lookup_from_range:
  "lookup_from i cache v = Some idx \<Longrightarrow> i \<le> idx \<and> idx < i + length cache"
  by (induction cache arbitrary: i) (fastforce split: if_splits)+

lemma lookup_from_key:
  "lookup_from i cache v = Some idx \<Longrightarrow> fst (cache ! (idx - i)) = v"
proof (induction cache arbitrary: i)
  case Nil
  then show ?case by simp
next
  case (Cons e es)
  show ?case
  proof (cases "fst e = v")
    case True
    with Cons.prems show ?thesis by simp
  next
    case False
    with Cons.prems have l: "lookup_from (Suc i) es v = Some idx" by simp
    from lookup_from_range [OF l] have "idx - i = Suc (idx - Suc i)" by arith
    with Cons.IH [OF l] show ?thesis by simp
  qed
qed

lemma lookup_from_append_Some:
  "lookup_from i cache v = Some idx \<Longrightarrow> lookup_from i (cache @ es) v = Some idx"
  by (induction cache arbitrary: i) (auto split: if_splits)

lemma lookup_from_append_None:
  "lookup_from i cache v = None \<Longrightarrow>
   lookup_from i (cache @ [(k, d)]) v = (if k = v then Some (i + length cache) else None)"
  by (induction cache arbitrary: i) (auto split: if_splits)

lemma lookup_range:
  "PerformVertexCacheLookup cache v = Some idx \<Longrightarrow> idx < length cache"
  using lookup_from_range [of 0 cache v idx] by (simp add: PerformVertexCacheLookup_def)

text \<open>Appending an entry for a key that is not cached yet, with the shader result of that key.\<close>

lemma cache_ok_append_fresh:
  assumes "cache_ok VS cache" and "PerformVertexCacheLookup cache k = None"
  shows "cache_ok VS (cache @ [(k, VS k)])"
  unfolding cache_ok_def
proof (intro allI impI)
  fix v idx
  assume h: "PerformVertexCacheLookup (cache @ [(k, VS k)]) v = Some idx"
  show "snd ((cache @ [(k, VS k)]) ! idx) = VS v"
  proof (cases "PerformVertexCacheLookup cache v")
    case None
    with h have "k = v" and "idx = length cache"
      using lookup_from_append_None [of 0 cache v k "VS k"]
      by (auto simp: PerformVertexCacheLookup_def split: if_splits)
    then show ?thesis by simp
  next
    case (Some j)
    then have "PerformVertexCacheLookup (cache @ [(k, VS k)]) v = Some j"
      by (simp add: PerformVertexCacheLookup_def lookup_from_append_Some)
    with h have "idx = j" by simp
    with Some assms(1) lookup_range [OF Some] show ?thesis
      by (simp add: cache_ok_def nth_append)
  qed
qed

text \<open>
  Appending any entry under a key that is cached already changes no lookup: the search
  stops at the first slot with the key.
\<close>

lemma lookup_append_shadowed:
  assumes "PerformVertexCacheLookup cache k \<noteq> None"
  shows "PerformVertexCacheLookup (cache @ [(k, d)]) v = PerformVertexCacheLookup cache v"
proof (cases "PerformVertexCacheLookup cache v")
  case None
  with assms have "k \<noteq> v" by auto
  with None show ?thesis
    using lookup_from_append_None [of 0 cache v k d] by (simp add: PerformVertexCacheLookup_def)
next
  case (Some j)
  then show ?thesis by (simp add: PerformVertexCacheLookup_def lookup_from_append_Some)
qed

lemma cache_ok_append_shadowed:
  assumes "cache_ok VS cache" and "PerformVertexCacheLookup cache k \<noteq> None"
  shows "cache_ok VS (cache @ [(k, d)])"
  unfolding cache_ok_def
proof (intro allI impI)
  fix v idx
  assume "PerformVertexCacheLookup (cache @ [(k, d)]) v = Some idx"
  then have h: "PerformVertexCacheLookup cache v = Some idx"
    by (simp add: lookup_append_shadowed [OF assms(2)])
  with assms(1) lookup_range [OF h] show "snd ((cache @ [(k, d)]) ! idx) = VS v"
    by (simp add: cache_ok_def nth_append)
qed


lemma cache_ok_Nil: "cache_ok VS []"
  by (simp add: cache_ok_def PerformVertexCacheLookup_def)

lemma shade_corner_own:
  assumes ok: "cache_ok VS cache"
    and sc: "shade_corner n VS cache v v = (c', r)"
  shows "cache_ok VS c'" and "r = VS v"
    and "length c' < n \<Longrightarrow> PerformVertexCacheLookup c' v \<noteq> None"
    and "length cache \<le> length c'"
    and "PerformVertexCacheLookup cache k \<noteq> None \<Longrightarrow> PerformVertexCacheLookup c' k \<noteq> None"
proof -
  show "cache_ok VS c'"
  proof (cases "PerformVertexCacheLookup cache v")
    case None
    with sc ok cache_ok_append_fresh [OF ok None] show ?thesis
      by (auto simp: shade_corner_def Let_def split: if_splits)
  next
    case (Some j)
    with sc ok show ?thesis by (simp add: shade_corner_def)
  qed
  show "r = VS v"
  proof (cases "PerformVertexCacheLookup cache v")
    case None
    with sc show ?thesis by (auto simp: shade_corner_def Let_def)
  next
    case (Some j)
    with sc ok show ?thesis by (auto simp: shade_corner_def cache_ok_def)
  qed
  show "length c' < n \<Longrightarrow> PerformVertexCacheLookup c' v \<noteq> None"
  proof (cases "PerformVertexCacheLookup cache v")
    case None
    assume "length c' < n"
    with None sc show ?thesis
      using lookup_from_append_None [of 0 cache v v "VS v"]
      by (auto simp: shade_corner_def Let_def PerformVertexCacheLookup_def split: if_splits)
  next
    case (Some j)
    with sc show ?thesis by (auto simp: shade_corner_def)
  qed
  show "length cache \<le> length c'"
    using sc by (auto simp: shade_corner_def Let_def split: option.splits if_splits)
  show "PerformVertexCacheLookup cache k \<noteq> None \<Longrightarrow> PerformVertexCacheLookup c' k \<noteq> None"
    using sc
    by (auto simp: shade_corner_def Let_def PerformVertexCacheLookup_def lookup_from_append_Some
        split: option.splits if_splits)
qed

lemma shade_corner_other:
  assumes ok: "cache_ok VS cache"
    and present: "length cache < n \<Longrightarrow> PerformVertexCacheLookup cache k \<noteq> None"
    and sc: "shade_corner n VS cache v k = (c', r)"
  shows "cache_ok VS c'" and "r = VS v"
proof -
  show "cache_ok VS c'"
  proof (cases "PerformVertexCacheLookup cache v")
    case None
    show ?thesis
    proof (cases "length cache < n")
      case True
      from cache_ok_append_shadowed [OF ok present [OF True], where d = "VS v"] None sc True
      show ?thesis
        by (auto simp: shade_corner_def Let_def)
    next
      case False
      with None sc ok show ?thesis by (auto simp: shade_corner_def Let_def)
    qed
  next
    case (Some j)
    with sc ok show ?thesis by (simp add: shade_corner_def)
  qed
  show "r = VS v"
  proof (cases "PerformVertexCacheLookup cache v")
    case None
    with sc show ?thesis by (auto simp: shade_corner_def Let_def)
  next
    case (Some j)
    with sc ok show ?thesis by (auto simp: shade_corner_def cache_ok_def)
  qed
qed

lemma ExecuteVertexShader_cached:
  assumes ok: "cache_ok VS cache"
    and ex: "ExecuteVertexShader True n VS ib off p cache = (c', r)"
  shows "cache_ok VS c'"
    and "r = (VS (ib (off + (3 * p))), VS (ib (off + (3 * p + 1))), VS (ib (off + (3 * p + 2))))"
proof -
  let ?v0 = "ib (off + (3 * p))" and ?v1 = "ib (off + (3 * p + 1))"
    and ?v2 = "ib (off + (3 * p + 2))"
  obtain c0 r0 where s0: "shade_corner n VS cache ?v0 ?v0 = (c0, r0)"
    by (cases "shade_corner n VS cache ?v0 ?v0") auto
  obtain c1 r1 where s1: "shade_corner n VS c0 ?v1 ?v1 = (c1, r1)"
    by (cases "shade_corner n VS c0 ?v1 ?v1") auto
  obtain c2 r2 where s2: "shade_corner n VS c1 ?v2 ?v0 = (c2, r2)"
    by (cases "shade_corner n VS c1 ?v2 ?v0") auto
  from ex s0 s1 s2 have res: "c' = c2" "r = (r0, r1, r2)"
    by (simp_all add: ExecuteVertexShader_def Let_def)
  note a = shade_corner_own [OF ok s0]
  note b = shade_corner_own [OF a(1) s1]
  have present: "length c1 < n \<Longrightarrow> PerformVertexCacheLookup c1 ?v0 \<noteq> None"
  proof -
    assume "length c1 < n"
    with b(4) have "length c0 < n" by simp
    from b(5) [OF a(3) [OF this]] show ?thesis .
  qed
  note c = shade_corner_other [OF b(1) present s2]
  from c(1) res show "cache_ok VS c'" by simp
  from a(2) b(2) c(2) res
  show "r = (VS ?v0, VS ?v1, VS ?v2)" by simp
qed

lemma geometry_vs_cached:
  "cache_ok VS cache \<Longrightarrow>
   snd (geometry_vs True n VS ib off ps cache) = snd (geometry_vs False n VS ib off ps cache')"
proof (induction ps arbitrary: cache cache')
  case Nil
  show ?case by simp
next
  case (Cons p ps)
  obtain c1 r where e: "ExecuteVertexShader True n VS ib off p cache = (c1, r)"
    by (cases "ExecuteVertexShader True n VS ib off p cache") auto
  note h = ExecuteVertexShader_cached [OF Cons.prems e]
  have d: "ExecuteVertexShader False n VS ib off p cache' = (cache', r)"
    using h(2) by (simp add: ExecuteVertexShader_def Let_def)
  from Cons.IH [OF h(1), of cache'] e d show ?case
    by (simp add: split_beta)
qed

text \<open>
  Claim C1. The claim asks that a hit always returns the shader result of the vertex that
  was looked up, and in particular that the entry inserted after vertex 2 of a triangle
  misses is keyed by the index of vertex 2. The code passes \<open>vertexIdx0\<close> to
  \<open>CacheVertexData\<close> for vertex 2: for the first triangle of a draw with the index
  buffer \<open>0, 1, 2\<close> and an empty cache of 16 slots the three slots written are keyed
  \<open>0, 1, 0\<close>, slot 2 holds the shader result of vertex 2 under the key of vertex 0, and
  vertex 2 is not found afterwards.
\<close>

theorem C1_vertex2_keyed_by_vertex0:
  "map fst (fst (ExecuteVertexShader True 16 (\<lambda>v. (v, v)) (\<lambda>n. of_nat n) 0 0 []))
     = [0, 1, 0]
   \<and> fst (ExecuteVertexShader True 16 (\<lambda>v. (v, v)) (\<lambda>n. of_nat n) 0 0 []) ! 2
     = (0, 2, 2)
   \<and> PerformVertexCacheLookup
       (fst (ExecuteVertexShader True 16 (\<lambda>v. (v, v)) (\<lambda>n. of_nat n) 0 0 [])) 2 = None"
  by (simp add: ExecuteVertexShader_def shade_corner_def PerformVertexCacheLookup_def Let_def)

section \<open>Clipping\<close>

text \<open>
  Claim C6. With clipping enabled, the clipping stage discards a triangle exactly when
  one of the six planes \<open>x < -w\<close>, \<open>x > w\<close>, \<open>y < -w\<close>, \<open>y > w\<close>, \<open>z < 0\<close>,
  \<open>z > w\<close> has all three vertices strictly outside it, each vertex tested against its
  own \<open>w\<close>; every other triangle, also one that straddles a plane, goes on to triangle
  setup with its three vertices unchanged.
\<close>

theorem C6_clipper_rejects_iff_outside_one_plane:
  "clipper_stage True v0 v1 v2 =
     (if \<exists>p. strictly_outside p v0 \<and> strictly_outside p v1 \<and> strictly_outside p v2
      then None else Some (v0, v1, v2))"
proof -
  have "(\<exists>p. strictly_outside p v0 \<and> strictly_outside p v1 \<and> strictly_outside p v2)
        = (\<not> ExecuteFullTriangleClipping True v0 v1 v2)"
  proof
    assume "\<exists>p. strictly_outside p v0 \<and> strictly_outside p v1 \<and> strictly_outside p v2"
    then obtain p where "strictly_outside p v0" "strictly_outside p v1" "strictly_outside p v2"
      by blast
    then show "\<not> ExecuteFullTriangleClipping True v0 v1 v2"
      by (cases p) (simp_all add: ExecuteFullTriangleClipping_def)
  next
    assume r: "\<not> ExecuteFullTriangleClipping True v0 v1 v2"
    then consider
        "strictly_outside LeftPlane v0 \<and> strictly_outside LeftPlane v1 \<and> strictly_outside LeftPlane v2"
      | "strictly_outside RightPlane v0 \<and> strictly_outside RightPlane v1 \<and> strictly_outside RightPlane v2"
      | "strictly_outside BottomPlane v0 \<and> strictly_outside BottomPlane v1 \<and> strictly_outside BottomPlane v2"
      | "strictly_outside TopPlane v0 \<and> strictly_outside TopPlane v1 \<and> strictly_outside TopPlane v2"
      | "strictly_outside NearPlane v0 \<and> strictly_outside NearPlane v1 \<and> strictly_outside NearPlane v2"
      | "strictly_outside FarPlane v0 \<and> strictly_outside FarPlane v1 \<and> strictly_outside FarPlane v2"
      by (auto simp: ExecuteFullTriangleClipping_def Let_def split: if_splits)
    then show "\<exists>p. strictly_outside p v0 \<and> strictly_outside p v1 \<and> strictly_outside p v2"
      by cases blast+
  qed
  then show ?thesis by (simp add: clipper_stage_def)
qed

text \<open>A triangle with one vertex left of the left plane and two inside is kept.\<close>

lemma clipper_straddling_kept:
  "clipper_stage True (Vec4 (-2) 0 (1/2) 1) (Vec4 0 0 (1/2) 1) (Vec4 0 1 (1/2) 1)
     = Some (Vec4 (-2) 0 (1/2) 1, Vec4 0 0 (1/2) 1, Vec4 0 1 (1/2) 1)"
  by (simp add: clipper_stage_def ExecuteFullTriangleClipping_def)

lemma clipper_disabled: "clipper_stage False v0 v1 v2 = Some (v0, v1, v2)"
  by (simp add: clipper_stage_def ExecuteFullTriangleClipping_def)

section \<open>Rounding to binary32\<close>

lemma round_half_even_of_int: "round_half_even (of_int n) = n"
  by (simp add: round_half_even_def)

lemma fl32_0: "fl32 0 = 0"
  by (simp add: fl32_def round_half_even_def)

text \<open>
  A number that is an integer of less than 24 bits times a power of two from \<open>2 ^ -149\<close>
  on is a binary32 number: rounding leaves it as it is.
\<close>

lemma fl32_rep:
  assumes "\<bar>m\<bar> < 2 ^ 24"
  shows "fl32 (of_int m * 2 ^ j / 2 ^ 149) = of_int m * 2 ^ j / 2 ^ 149"
proof -
  let ?x = "(of_int m * 2 ^ j / 2 ^ 149 :: real)"
  have N: "\<lfloor>\<bar>?x\<bar> * 2 ^ 149\<rfloor> = \<bar>m\<bar> * 2 ^ j"
  proof -
    have "\<bar>?x\<bar> * 2 ^ 149 = of_int (\<bar>m\<bar> * 2 ^ j)"
      by (simp add: abs_mult)
    then show ?thesis by (metis floor_of_int)
  qed
  define k where "k = nat (bitlen (\<bar>m\<bar> * 2 ^ j) - 24)"
  have e: "nat (24 + int j) = 24 + j" by arith
  have "\<bar>m\<bar> * 2 ^ j < 2 ^ 24 * 2 ^ j"
    using assms by simp
  then have "\<bar>m\<bar> * 2 ^ j < 2 ^ (24 + j)"
    by (simp add: power_add)
  then have "bitlen (\<bar>m\<bar> * 2 ^ j) \<le> int (24 + j)"
    unfolding bitlen_le_iff_power by (simp add: e)
  then have kj: "k \<le> j"
    unfolding k_def by simp
  then obtain d where d: "j = k + d"
    using le_iff_add by blast
  have "?x * 2 ^ 149 / 2 ^ k = of_int (m * 2 ^ d)"
    by (simp add: d power_add)
  then have r: "round_half_even (?x * 2 ^ 149 / 2 ^ k) = m * 2 ^ d"
    by (simp only: round_half_even_of_int)
  have "(of_int (m * 2 ^ d) :: real) * 2 ^ k = of_int m * 2 ^ j"
    by (simp add: d power_add)
  then show ?thesis
    unfolding fl32_def N Let_def k_def[symmetric] r by simp
qed

lemma fl32_int:
  assumes "\<bar>n\<bar> \<le> 2 ^ 24"
  shows "fl32 (of_int n) = of_int n"
proof (cases "\<bar>n\<bar> = 2 ^ 24")
  case True
  then have "n = 2 ^ 23 * 2 \<or> n = - (2 ^ 23) * 2" by auto
  then show ?thesis
    using fl32_rep [of "2 ^ 23" 150] fl32_rep [of "- (2 ^ 23)" 150] by auto
next
  case False
  then have "\<bar>n\<bar> < 2 ^ 24" using assms by simp
  then show ?thesis using fl32_rep [of n 149] by simp
qed

lemma fl32_1: "fl32 1 = 1"
  using fl32_int [of 1] by simp

lemma fl32_numeral: "numeral k \<le> (16777216 :: int) \<Longrightarrow> fl32 (numeral k) = numeral k"
  using fl32_int [of "numeral k"] by simp

lemma fl32_neg_numeral:
  "numeral k \<le> (16777216 :: int) \<Longrightarrow> fl32 (- numeral k) = - numeral k"
  using fl32_int [of "- numeral k"] by simp

lemma fl32_minus_1: "fl32 (- 1) = - 1"
  using fl32_int [of "- 1"] by simp

lemma fl32_half: "fl32 (1 / 2) = 1 / 2"
  using fl32_rep [of 1 148] by simp

lemma fl32_of_nat: "n \<le> 16777216 \<Longrightarrow> fl32 (real n) = real n"
  using fl32_int [of "int n"] by simp

lemmas fl32_small = fl32_0 fl32_1 fl32_minus_1 fl32_numeral fl32_neg_numeral fl32_half

lemmas float_ops = fadd_def fsub_def fmul_def fdiv_def float_of_uint_def

text \<open>
  The rounding of any number, once the number \<open>24 + k\<close> of bits of the integer part of
  \<open>|x| * 2 ^ 149\<close> is known.
\<close>

lemma fl32_eval:
  assumes "\<lfloor>\<bar>x\<bar> * 2 ^ 149\<rfloor> = N" and "2 ^ (23 + k) \<le> N" and "N < 2 ^ (24 + k)"
  shows "fl32 x = of_int (round_half_even (x * 2 ^ 149 / 2 ^ k)) * 2 ^ k / 2 ^ 149"
proof -
  have e: "nat (24 + int k) = 24 + k" by arith
  have "bitlen N \<le> int (24 + k)"
    unfolding bitlen_le_iff_power using assms(3) by (simp add: e)
  moreover have "int (24 + k) \<le> bitlen N"
    unfolding bitlen_ge_iff_power using assms(2) by (simp add: e)
  ultimately have "nat (bitlen N - 24) = k" by simp
  then show ?thesis
    unfolding fl32_def assms(1) Let_def by simp
qed

section \<open>Triangle setup and cull\<close>



text \<open>
  The determinant that decides is the one computed in binary32. The triangle below has
  the pixel-space vertices \<open>(0, 0)\<close>, \<open>(1, 4097 / 4096)\<close> and \<open>(4097 / 4096, 2049 / 2048)\<close>
  with \<open>w = 1\<close>. Its determinant is \<open>1 / 16777216\<close> as a real number; in binary32 the
  product \<open>4097 / 4096 * 4097 / 4096\<close> rounds to \<open>2049 / 2048\<close>, the determinant is 0,
  and the triangle is culled.
\<close>

lemma fl32_example_setup:
  "fl32 (4097 / 4096) = 4097 / 4096"
  "fl32 (4097 / 2048) = 4097 / 2048"
  "fl32 (2049 / 2048) = 2049 / 2048"
  "fl32 (2049 / 1024) = 2049 / 1024"
  "fl32 (16785409 / 16777216) = 2049 / 2048"
proof -
  show "fl32 (4097 / 4096) = 4097 / 4096" using fl32_rep [of 4097 137] by simp
  show "fl32 (4097 / 2048) = 4097 / 2048" using fl32_rep [of 4097 138] by simp
  show "fl32 (2049 / 2048) = 2049 / 2048" using fl32_rep [of 2049 138] by simp
  show "fl32 (2049 / 1024) = 2049 / 1024" using fl32_rep [of 2049 139] by simp
  show "fl32 (16785409 / 16777216) = 2049 / 2048"
    by (subst fl32_eval [where k = 126 and N = "16785409 * 2 ^ 125"])
       (simp_all add: round_half_even_def)
qed

lemma setup_culls_on_the_rounded_determinant:
  "ExecuteTriangleSetupAndCull 2 2 i (Vec4 (- 1) (- 1) 0 1) (Vec4 0 (1 / 4096) 0 1)
     (Vec4 (1 / 4096) (1 / 2048) 0 1) sb = (False, sb)"
  by (simp add: ExecuteTriangleSetupAndCull_def TO_HOMOGEN_def Let_def float_ops fl32_small
      fl32_example_setup)

section \<open>Attribute interpolation\<close>

text \<open>
  The interpolation of a component from its delta triple, lane by lane: two products and
  two sums in binary32.
\<close>

lemma interpolate_component_lane:
  "interpolate_component (Vec3 d0 d1 A2) f0 f1 l = fadd (fmul d0 (f0 l)) (fadd (fmul d1 (f1 l)) A2)"
  by (simp add: interpolate_component_def mm_add_ps_def mm_mul_ps_def mm_set_ps1_def Let_def)

lemma fold_setup_vec4:
  "m_Attribute4Deltas (fold (setup_vec4 d a0 a1 a2) [0..<n] sb) =
     (\<lambda>s. if s < n then m_Attribute4Deltas (setup_vec4 d a0 a1 a2 s sb) s
          else m_Attribute4Deltas sb s)"
  by (induction n) (auto simp: setup_vec4_def Let_def fun_eq_iff)

lemma fold_setup_vec4_others:
  "m_Attribute3Deltas (fold (setup_vec4 d a0 a1 a2) [0..<n] sb) = m_Attribute3Deltas sb"
  "m_Attribute2Deltas (fold (setup_vec4 d a0 a1 a2) [0..<n] sb) = m_Attribute2Deltas sb"
  by (induction n) (auto simp: setup_vec4_def Let_def)

lemma fold_setup_vec3:
  "m_Attribute3Deltas (fold (setup_vec3 d a0 a1 a2) [0..<n] sb) =
     (\<lambda>s. if s < n then m_Attribute3Deltas (setup_vec3 d a0 a1 a2 s sb) s
          else m_Attribute3Deltas sb s)"
  by (induction n) (auto simp: setup_vec3_def Let_def fun_eq_iff)

lemma fold_setup_vec3_others:
  "m_Attribute4Deltas (fold (setup_vec3 d a0 a1 a2) [0..<n] sb) = m_Attribute4Deltas sb"
  "m_Attribute2Deltas (fold (setup_vec3 d a0 a1 a2) [0..<n] sb) = m_Attribute2Deltas sb"
  by (induction n) (auto simp: setup_vec3_def Let_def)

lemma fold_setup_vec2:
  "m_Attribute2Deltas (fold (setup_vec2 d a0 a1 a2) [0..<n] sb) =
     (\<lambda>s. if s < n then m_Attribute2Deltas (setup_vec2 d a0 a1 a2 s sb) s
          else m_Attribute2Deltas sb s)"
  by (induction n) (auto simp: setup_vec2_def Let_def fun_eq_iff)

lemma fold_setup_vec2_others:
  "m_Attribute4Deltas (fold (setup_vec2 d a0 a1 a2) [0..<n] sb) = m_Attribute4Deltas sb"
  "m_Attribute3Deltas (fold (setup_vec2 d a0 a1 a2) [0..<n] sb) = m_Attribute3Deltas sb"
  by (induction n) (auto simp: setup_vec2_def Let_def)

text \<open>What geometry setup stores for the vec4 slot s of primitive d.\<close>

lemma setup_stores_vec4:
  assumes "s < m_NumVec4Attributes md"
  shows "m_Attribute4Deltas (CalculateInterpolationCoefficients md d a0 a1 a2 sb) s (4 * d + 0)
       = Vec3 (fsub (vec4_x (m_Attributes4 a0 s)) (vec4_x (m_Attributes4 a2 s)))
              (fsub (vec4_x (m_Attributes4 a1 s)) (vec4_x (m_Attributes4 a2 s)))
              (vec4_x (m_Attributes4 a2 s))"
    and "m_Attribute4Deltas (CalculateInterpolationCoefficients md d a0 a1 a2 sb) s (4 * d + 1)
       = Vec3 (fsub (vec4_y (m_Attributes4 a0 s)) (vec4_y (m_Attributes4 a2 s)))
              (fsub (vec4_y (m_Attributes4 a1 s)) (vec4_y (m_Attributes4 a2 s)))
              (vec4_y (m_Attributes4 a2 s))"
    and "m_Attribute4Deltas (CalculateInterpolationCoefficients md d a0 a1 a2 sb) s (4 * d + 2)
       = Vec3 (fsub (vec4_z (m_Attributes4 a0 s)) (vec4_z (m_Attributes4 a2 s)))
              (fsub (vec4_z (m_Attributes4 a1 s)) (vec4_z (m_Attributes4 a2 s)))
              (vec4_z (m_Attributes4 a2 s))"
    and "m_Attribute4Deltas (CalculateInterpolationCoefficients md d a0 a1 a2 sb) s (4 * d + 3)
       = Vec3 (fsub (vec4_w (m_Attributes4 a0 s)) (vec4_w (m_Attributes4 a2 s)))
              (fsub (vec4_w (m_Attributes4 a1 s)) (vec4_w (m_Attributes4 a2 s)))
              (vec4_w (m_Attributes4 a2 s))"
  using assms
  by (simp_all add: CalculateInterpolationCoefficients_def Let_def fold_setup_vec4
      fold_setup_vec3_others fold_setup_vec2_others setup_vec4_def mult.commute)

lemma setup_stores_vec3:
  assumes "s < m_NumVec3Attributes md"
  shows "m_Attribute3Deltas (CalculateInterpolationCoefficients md d a0 a1 a2 sb) s (3 * d + 0)
       = Vec3 (fsub (vec3_x (m_Attributes3 a0 s)) (vec3_x (m_Attributes3 a2 s)))
              (fsub (vec3_x (m_Attributes3 a1 s)) (vec3_x (m_Attributes3 a2 s)))
              (vec3_x (m_Attributes3 a2 s))"
    and "m_Attribute3Deltas (CalculateInterpolationCoefficients md d a0 a1 a2 sb) s (3 * d + 1)
       = Vec3 (fsub (vec3_y (m_Attributes3 a0 s)) (vec3_y (m_Attributes3 a2 s)))
              (fsub (vec3_y (m_Attributes3 a1 s)) (vec3_y (m_Attributes3 a2 s)))
              (vec3_y (m_Attributes3 a2 s))"
    and "m_Attribute3Deltas (CalculateInterpolationCoefficients md d a0 a1 a2 sb) s (3 * d + 2)
       = Vec3 (fsub (vec3_z (m_Attributes3 a0 s)) (vec3_z (m_Attributes3 a2 s)))
              (fsub (vec3_z (m_Attributes3 a1 s)) (vec3_z (m_Attributes3 a2 s)))
              (vec3_z (m_Attributes3 a2 s))"
  using assms
  by (simp_all add: CalculateInterpolationCoefficients_def Let_def fold_setup_vec3
      fold_setup_vec2_others setup_vec3_def mult.commute)

lemma setup_stores_vec2:
  assumes "s < m_NumVec2Attributes md"
  shows "m_Attribute2Deltas (CalculateInterpolationCoefficients md d a0 a1 a2 sb) s (2 * d + 0)
       = Vec3 (fsub (vec2_x (m_Attributes2 a0 s)) (vec2_x (m_Attributes2 a2 s)))
              (fsub (vec2_x (m_Attributes2 a1 s)) (vec2_x (m_Attributes2 a2 s)))
              (vec2_x (m_Attributes2 a2 s))"
    and "m_Attribute2Deltas (CalculateInterpolationCoefficients md d a0 a1 a2 sb) s (2 * d + 1)
       = Vec3 (fsub (vec2_y (m_Attributes2 a0 s)) (vec2_y (m_Attributes2 a2 s)))
              (fsub (vec2_y (m_Attributes2 a1 s)) (vec2_y (m_Attributes2 a2 s)))
              (vec2_y (m_Attributes2 a2 s))"
  using assms
  by (simp_all add: CalculateInterpolationCoefficients_def Let_def fold_setup_vec2
      setup_vec2_def mult.commute)

text \<open>What fragment shading computes for the vec4 slot s of primitive p.\<close>

lemma fold_interp_vec4:
  "m_Vec4Attributes (fold (interp_vec4 sb p f0 f1) [0..<n] out s) =
     (if s < n then m_Vec4Attributes (interp_vec4 sb p f0 f1 s out s)
      else m_Vec4Attributes (out s))"
  by (induction n) (auto simp: interp_vec4_def Let_def)

lemma fold_interp_vec3_others:
  "m_Vec4Attributes (fold (interp_vec3 sb p f0 f1) [0..<n] out s) = m_Vec4Attributes (out s)"
  by (induction n) (auto simp: interp_vec3_def Let_def)

lemma fold_interp_vec2_others:
  "m_Vec4Attributes (fold (interp_vec2 sb p f0 f1) [0..<n] out s) = m_Vec4Attributes (out s)"
  by (induction n) (auto simp: interp_vec2_def Let_def)

lemma interpolates_vec4:
  assumes "s < m_NumVec4Attributes md"
  shows "m_Vec4Attributes (InterpolateVertexAttributes md sb p f0 f1 out s) 0 =
     \<lparr>m_SSEX = interpolate_component (m_Attribute4Deltas sb s (4 * p + 0)) f0 f1,
      m_SSEY = interpolate_component (m_Attribute4Deltas sb s (4 * p + 1)) f0 f1,
      m_SSEZ = interpolate_component (m_Attribute4Deltas sb s (4 * p + 2)) f0 f1,
      m_SSEW = interpolate_component (m_Attribute4Deltas sb s (4 * p + 2)) f0 f1\<rparr>"
  using assms
  by (simp add: InterpolateVertexAttributes_def Let_def fold_interp_vec4 fold_interp_vec3_others
      fold_interp_vec2_others interp_vec4_def Attribute4Deltas_refs_def mult.commute)

text \<open>
  Claim C2. Geometry setup stores the triple \<open>(c\<^sub>0 - c\<^sub>2, c\<^sub>1 - c\<^sub>2, c\<^sub>2)\<close> of every
  component of every active slot (\<open>setup_stores_vec4\<close>, \<open>setup_stores_vec3\<close>,
  \<open>setup_stores_vec2\<close>), and the claim asks that fragment shading interpolates every
  component from the triple of that component, the \<open>w\<close> of a vec4 attribute from the
  triple at \<open>4 i + 3\<close>. The code interpolates \<open>w\<close> from the triple of \<open>z\<close> at
  \<open>4 i + 2\<close> (\<open>interpolates_vec4\<close>). For one vec4 attribute that is \<open>(0, 0, 0, 1)\<close> at
  all three vertices, the triple stored at \<open>4 i + 3\<close> is \<open>(0, 0, 1)\<close>, the interpolation
  asked for is 1 in every lane, and the code yields 0 in every lane, whatever the basis
  functions are. All numbers of the example are binary32 numbers, and so are the
  differences, products and sums that the code forms of them.
\<close>

theorem C2_vec4_w_interpolated_from_z_deltas:
  "m_Attribute4Deltas
     (CalculateInterpolationCoefficients
        \<lparr>m_NumVec4Attributes = 1, m_NumVec3Attributes = 0, m_NumVec2Attributes = 0\<rparr> i
        \<lparr>m_Attributes4 = (\<lambda>s. Vec4 0 0 0 1), m_Attributes3 = a3, m_Attributes2 = a2\<rparr>
        \<lparr>m_Attributes4 = (\<lambda>s. Vec4 0 0 0 1), m_Attributes3 = b3, m_Attributes2 = b2\<rparr>
        \<lparr>m_Attributes4 = (\<lambda>s. Vec4 0 0 0 1), m_Attributes3 = c3, m_Attributes2 = c2\<rparr> sb)
     0 (4 * i + 3) = Vec3 0 0 1
   \<and> spec_interpolate 1 1 1 f0 f1 = (\<lambda>l. 1)
   \<and> m_SSEW (m_Vec4Attributes
       (InterpolateVertexAttributes
          \<lparr>m_NumVec4Attributes = 1, m_NumVec3Attributes = 0, m_NumVec2Attributes = 0\<rparr>
          (CalculateInterpolationCoefficients
            \<lparr>m_NumVec4Attributes = 1, m_NumVec3Attributes = 0, m_NumVec2Attributes = 0\<rparr> i
            \<lparr>m_Attributes4 = (\<lambda>s. Vec4 0 0 0 1), m_Attributes3 = a3, m_Attributes2 = a2\<rparr>
            \<lparr>m_Attributes4 = (\<lambda>s. Vec4 0 0 0 1), m_Attributes3 = b3, m_Attributes2 = b2\<rparr>
            \<lparr>m_Attributes4 = (\<lambda>s. Vec4 0 0 0 1), m_Attributes3 = c3, m_Attributes2 = c2\<rparr> sb)
          i f0 f1 out 0) 0) = (\<lambda>l. 0)"
proof -
  let ?md = "\<lparr>m_NumVec4Attributes = 1, m_NumVec3Attributes = 0, m_NumVec2Attributes = 0\<rparr>"
  let ?a = "\<lparr>m_Attributes4 = (\<lambda>s. Vec4 0 0 0 1), m_Attributes3 = a3, m_Attributes2 = a2\<rparr>"
  let ?b = "\<lparr>m_Attributes4 = (\<lambda>s. Vec4 0 0 0 1), m_Attributes3 = b3, m_Attributes2 = b2\<rparr>"
  let ?c = "\<lparr>m_Attributes4 = (\<lambda>s. Vec4 0 0 0 1), m_Attributes3 = c3, m_Attributes2 = c2\<rparr>"
  let ?sb = "CalculateInterpolationCoefficients ?md i ?a ?b ?c sb"
  have s: "0 < m_NumVec4Attributes ?md" by simp
  have w: "m_Attribute4Deltas ?sb 0 (4 * i + 3) = Vec3 0 0 1"
    by (simp only: setup_stores_vec4(4) [OF s]) (simp add: fsub_def fl32_0)
  have z: "m_Attribute4Deltas ?sb 0 (4 * i + 2) = Vec3 0 0 0"
    by (simp only: setup_stores_vec4(3) [OF s]) (simp add: fsub_def fl32_0)
  have "m_SSEW (m_Vec4Attributes (InterpolateVertexAttributes ?md ?sb i f0 f1 out 0) 0)
      = interpolate_component (m_Attribute4Deltas ?sb 0 (4 * i + 2)) f0 f1"
    by (simp only: interpolates_vec4 [OF s]) simp
  also have "\<dots> = (\<lambda>l. 0)"
    by (simp only: z)
      (simp add: interpolate_component_def mm_add_ps_def mm_mul_ps_def mm_set_ps1_def
        fadd_def fmul_def fl32_0)
  finally have r: "m_SSEW (m_Vec4Attributes (InterpolateVertexAttributes ?md ?sb i f0 f1 out 0) 0)
      = (\<lambda>l. 0)" .
  have sp: "spec_interpolate 1 1 1 f0 f1 = (\<lambda>l. 1)"
    by (simp add: spec_interpolate_def)
  from w sp r show ?thesis by (intro conjI)
qed

text \<open>
  The element references of the interpolation stay inside the allocations for every
  primitive index below \<open>m_MaxDrawIterationSize\<close>, but for the third reference of the
  vec2 loop.
\<close>

lemma refs_in_bounds:
  assumes "p < n"
  shows "\<forall>idx \<in> set (Attribute4Deltas_refs p). idx < alloc_Attribute4Deltas n"
    and "\<forall>idx \<in> set (Attribute3Deltas_refs p). idx < alloc_Attribute3Deltas n"
    and "\<forall>idx \<in> set (butlast (Attribute2Deltas_refs p)). idx < alloc_Attribute2Deltas n"
  using assms
  by (auto simp: Attribute4Deltas_refs_def alloc_Attribute4Deltas_def
      Attribute3Deltas_refs_def alloc_Attribute3Deltas_def
      Attribute2Deltas_refs_def alloc_Attribute2Deltas_def)
text \<open>
  Claim C10. The claim asks that every element of \<open>m_Attribute2Deltas[slot]\<close> that the
  interpolation refers to lies inside the \<open>2 * m_MaxDrawIterationSize\<close> allocated
  elements. The vec2 loop binds a third reference, to element \<open>2 i + 2\<close> (line 1527).
  For the last primitive of a full iteration, \<open>i = m\<close> with
  \<open>m_MaxDrawIterationSize = m + 1\<close>, that is element \<open>2 (m + 1)\<close>, the first one
  past the end of the array.
\<close>

theorem C10_vec2_third_reference_past_the_end:
  "Attribute2Deltas_refs m = [2 * m, 2 * m + 1, 2 * m + 2]
   \<and> Attribute2Deltas_refs m ! 2 = alloc_Attribute2Deltas (Suc m)
   \<and> \<not> list_all (\<lambda>idx. idx < alloc_Attribute2Deltas (Suc m)) (Attribute2Deltas_refs m)"
  by (simp add: Attribute2Deltas_refs_def alloc_Attribute2Deltas_def)

section \<open>Colour conversion\<close>

lemma round_half_even_example: "round_half_even (255 / 2) = 128"
  by (simp add: round_half_even_def Let_def)

lemma sint32: "- (2 ^ 31) \<le> r \<Longrightarrow> r < 2 ^ 31 \<Longrightarrow> sint (word_of_int r :: 32 word) = r"
  by (simp add: sint_sbintrunc' signed_take_bit_int_eq_self)

lemma sint16: "- (2 ^ 15) \<le> r \<Longrightarrow> r < 2 ^ 15 \<Longrightarrow> sint (word_of_int r :: 16 word) = r"
  by (simp add: sint_sbintrunc' signed_take_bit_int_eq_self)

lemma sint16_high:
  assumes "2 ^ 15 \<le> r" and "r < 2 ^ 16"
  shows "sint (word_of_int r :: 16 word) < 0"
proof -
  have e: "sint (word_of_int r :: 16 word) = signed_take_bit 15 r"
    by (simp add: sint_sbintrunc')
  have "signed_take_bit 15 r \<le> r - 2 ^ Suc 15"
    using assms(1) by (rule signed_take_bit_int_less_eq)
  then have "signed_take_bit 15 r \<le> r - 65536" by simp
  moreover from assms(2) have "r < 65536" by simp
  ultimately have "signed_take_bit 15 r < 0" by linarith
  then show ?thesis unfolding e .
qed

lemma pack_twice:
  "mm_packus_epi16 (mm_packus_epi32 w) =
     (if sint w < 0 then 0 else if sint w \<le> 255 then word_of_int (sint w)
      else if sint w \<le> 32767 then 255 else 0)"
proof -
  consider "sint w < 0" | "0 \<le> sint w" "sint w \<le> 255" | "255 < sint w" "sint w \<le> 32767"
    | "32767 < sint w" "sint w \<le> 65535" | "65535 < sint w"
    by linarith
  then show ?thesis
  proof cases
    case 1
    then show ?thesis by (simp add: mm_packus_epi32_def mm_packus_epi16_def)
  next
    case 2
    then have "sint (word_of_int (sint w) :: 16 word) = sint w" by (intro sint16) simp_all
    with 2 show ?thesis by (simp add: mm_packus_epi32_def mm_packus_epi16_def)
  next
    case 3
    then have "sint (word_of_int (sint w) :: 16 word) = sint w" by (intro sint16) simp_all
    with 3 show ?thesis by (simp add: mm_packus_epi32_def mm_packus_epi16_def)
  next
    case 4
    then have "sint (word_of_int (sint w) :: 16 word) < 0" by (intro sint16_high) simp_all
    with 4 show ?thesis by (simp add: mm_packus_epi32_def mm_packus_epi16_def)
  next
    case 5
    then show ?thesis by (simp add: mm_packus_epi32_def mm_packus_epi16_def)
  qed
qed

lemma sint_cvtps:
  "sint (mm_cvtps_epi32 x) =
     (if - (2 ^ 31) \<le> round_half_even x \<and> round_half_even x < 2 ^ 31 then round_half_even x
      else - (2 ^ 31))"
  by (simp add: mm_cvtps_epi32_def Let_def sint32)

text \<open>The two packs after the conversion, in terms of the converted integer.\<close>

lemma color_byte_closed_form:
  "color_byte v =
     (if round_half_even (fmul v 255) < 0 then 0
      else if round_half_even (fmul v 255) \<le> 255
      then word_of_int (round_half_even (fmul v 255))
      else if round_half_even (fmul v 255) \<le> 32767 then 255
      else 0)"
  by (simp add: color_byte_def pack_twice sint_cvtps)

text \<open>
  The product is the binary32 product. For the binary32 number next to 0.3, which is
  \<open>5033165 / 2 ^ 24\<close>, the exact product with 255 lies above 76.5 and would be
  converted to 77; the binary32 product is 76.5, and the byte stored is 76.
\<close>

lemma fmul_three_tenths: "fmul (5033165 / 16777216) 255 = 153 / 2"
proof -
  have "fl32 (5033165 / 16777216 * 255) = 153 / 2"
    by (subst fl32_eval [where k = 132 and N = "2566914150 * 2 ^ 124"])
       (simp_all add: round_half_even_def)
  then show ?thesis by (simp add: fmul_def)
qed

lemma color_byte_three_tenths:
  "round_half_even (5033165 / 16777216 * 255) = 77"
  "uint (color_byte (5033165 / 16777216)) = 76"
proof -
  show "round_half_even (5033165 / 16777216 * 255) = 77"
    by (simp add: round_half_even_def)
  show "uint (color_byte (5033165 / 16777216)) = 76"
    unfolding color_byte_closed_form fmul_three_tenths
    by (simp add: round_half_even_def)
qed

text \<open>
  Claim C3. The claim asks that the byte stored for a channel value \<open>v\<close> is the cast of
  \<open>v * 255.f\<close> that truncates toward zero, as the comment above the conversion says
  (\<open>rgba = cast<uint>(rgba * 255.f)\<close>) and as \<open>ClearRenderTargets\<close> converts the clear
  colour. The code converts with \<open>_mm_cvtps_epi32\<close>, which rounds to the nearest integer.
  For \<open>v = 1/2\<close> the binary32 product with 255 is 127.5 exactly; its truncation is 127,
  and the byte stored is 128.
\<close>

theorem C3_half_is_stored_as_128:
  "fmul (1 / 2) 255 = 255 / 2 \<and> spec_cast_uint (fmul (1 / 2) 255) = 127 \<and>
   uint (color_byte (1 / 2)) = 128"
proof -
  have p: "fmul (1 / 2) 255 = 255 / 2"
    using fl32_rep [of 255 148] by (simp add: fmul_def)
  show ?thesis
    by (simp add: color_byte_closed_form p round_half_even_example spec_cast_uint_def)
qed

section \<open>Fragment shading\<close>

text \<open>Lane \<open>l\<close> of the colour mask of a quad is bit \<open>l\<close> of the quad mask.\<close>

lemma colmask: "l < 4 \<Longrightarrow> sseColorMask q l = bit q l"
proof (cases "bit q l")
  case True
  assume "l < 4"
  have "q AND 2 ^ l = 2 ^ l"
    by (rule bit_eqI) (use True in \<open>auto simp: bit_and_iff bit_exp_iff\<close>)
  with True show ?thesis by (simp add: sseColorMask_def g_scQuadMask_def)
next
  case False
  assume l: "l < 4"
  from False have "q AND 2 ^ l = 0" by (simp add: and_exp_eq_0_iff_not_bit)
  moreover from l have "(2 :: 16 word) ^ l \<noteq> 0" by (simp add: exp_eq_zero_iff)
  ultimately show ?thesis using False by (simp add: sseColorMask_def g_scQuadMask_def)
qed

lemma movemask_zero: "(mm_movemask_ps m = 0) = (\<not> (\<exists>l<4. m l))"
proof -
  have "(\<exists>l<4. m l) = (m 0 \<or> m 1 \<or> m 2 \<or> m 3)"
  proof
    assume "\<exists>l<4. m l"
    then obtain l where "l < 4" "m l" by blast
    then have "l = 0 \<or> l = 1 \<or> l = 2 \<or> l = 3" by arith
    with \<open>m l\<close> show "m 0 \<or> m 1 \<or> m 2 \<or> m 3" by auto
  next
    assume h: "m 0 \<or> m 1 \<or> m 2 \<or> m 3"
    have "0 < (4::nat)" "1 < (4::nat)" "2 < (4::nat)" "3 < (4::nat)" by simp_all
    with h show "\<exists>l<4. m l" by blast
  qed
  then show ?thesis by (simp add: mm_movemask_ps_def)
qed

lemma depth_res:
  "mm_cmple_ps
     (InterpolateDepthValues sb p
        (fst (ComputeParameterBasisFunctions rcp x y (m_pEdgeCoefficients sb (3 * p + 0))
               (m_pEdgeCoefficients sb (3 * p + 1)) (m_pEdgeCoefficients sb (3 * p + 2))))
        (snd (ComputeParameterBasisFunctions rcp x y (m_pEdgeCoefficients sb (3 * p + 0))
               (m_pEdgeCoefficients sb (3 * p + 1)) (m_pEdgeCoefficients sb (3 * p + 2)))))
     (\<lambda>l. m_pDepthBuffer st (x + y * W + l))
   = depth_test rcp sb W st p x y"
  by (rule ext) (simp add: mm_cmple_ps_def depth_test_def group_depth_def Let_def)

text \<open>
  The call of \<open>InterpolateVertexAttributes\<close> stays inside the local object exactly when
  the shader has at most one attribute of each kind.
\<close>

lemma upt_below_one: "list_all (\<lambda>i. i < 1) [0..<n] = (n \<le> 1)"
  by (induction n) auto

lemma written_elements_in_local:
  "list_all (\<lambda>i. i < 1) (written_elements md) =
     (m_NumVec4Attributes md \<le> 1 \<and> m_NumVec3Attributes md \<le> 1 \<and> m_NumVec2Attributes md \<le> 1)"
  unfolding written_elements_def list_all_append upt_below_one ..

lemma shade_group_unfold:
  "shade_group rcp FS md sb W p x y st =
     (if \<not> (\<exists>l<4. depth_test rcp sb W st p x y l) then Some st
      else if list_all (\<lambda>i. i < 1) (written_elements md)
      then Some (st\<lparr>m_pColorBuffer :=
                       UpdateColorBuffer (depth_test rcp sb W st p x y)
                         (FS (group_attribs rcp md sb p x y st) (fragmentOutput st))
                         (4 * x + y * (W * 4)) (m_pColorBuffer st),
                     m_pDepthBuffer :=
                       UpdateDepthBuffer (depth_test rcp sb W st p x y)
                         (group_depth rcp sb p x y) (x + y * W) (m_pDepthBuffer st),
                     interpolatedAttribs := group_attribs rcp md sb p x y st,
                     fragmentOutput := FS (group_attribs rcp md sb p x y st) (fragmentOutput st),
                     fs_invocations := fs_invocations st + 1\<rparr>)
      else None)"
  unfolding shade_group_def Let_def depth_res movemask_zero
  by (auto simp: group_depth_def group_attribs_def interpolate_into_local_def Let_def)

lemma FragmentShadeQuad_unfold:
  "FragmentShadeQuad rcp FS md sb W pMask st =
     (if \<not> (\<exists>l<4. depth_test rcp sb W st (m_PrimIdx pMask) (m_SampleX pMask) (m_SampleY pMask) l)
      then Some st
      else if list_all (\<lambda>i. i < 1) (written_elements md)
      then Some (st\<lparr>m_pColorBuffer :=
                 UpdateColorBuffer
                   (mm_and_ps
                      (depth_test rcp sb W st (m_PrimIdx pMask) (m_SampleX pMask) (m_SampleY pMask))
                      (sseColorMask (m_QuadMask pMask)))
                   (FS (group_attribs rcp md sb (m_PrimIdx pMask) (m_SampleX pMask)
                          (m_SampleY pMask) st) (fragmentOutput st))
                   (4 * m_SampleX pMask + m_SampleY pMask * (W * 4)) (m_pColorBuffer st),
               m_pDepthBuffer :=
                 UpdateDepthBuffer
                   (mm_and_ps
                      (depth_test rcp sb W st (m_PrimIdx pMask) (m_SampleX pMask) (m_SampleY pMask))
                      (sseColorMask (m_QuadMask pMask)))
                   (group_depth rcp sb (m_PrimIdx pMask) (m_SampleX pMask) (m_SampleY pMask))
                   (m_SampleX pMask + m_SampleY pMask * W) (m_pDepthBuffer st),
               interpolatedAttribs :=
                 group_attribs rcp md sb (m_PrimIdx pMask) (m_SampleX pMask) (m_SampleY pMask) st,
               fragmentOutput :=
                 FS (group_attribs rcp md sb (m_PrimIdx pMask) (m_SampleX pMask)
                       (m_SampleY pMask) st) (fragmentOutput st),
               fs_invocations := fs_invocations st + 1\<rparr>)
      else None)"
  unfolding FragmentShadeQuad_def Let_def depth_res movemask_zero
  by (auto simp: group_depth_def group_attribs_def interpolate_into_local_def Let_def)

text \<open>
  When all four samples fail the depth test, nothing at all changes, whatever the shader
  declares: the interpolation is not called.
\<close>

lemma shade_group_all_fail:
  "\<not> (\<exists>l<4. depth_test rcp sb W st p x y l) \<Longrightarrow> shade_group rcp FS md sb W p x y st = Some st"
  by (simp add: shade_group_unfold)

lemma FragmentShadeQuad_all_fail:
  "\<not> (\<exists>l<4. depth_test rcp sb W st (m_PrimIdx pMask) (m_SampleX pMask) (m_SampleY pMask) l)
   \<Longrightarrow> FragmentShadeQuad rcp FS md sb W pMask st = Some st"
  by (simp add: FragmentShadeQuad_unfold)

text \<open>
  When some sample passes the depth test and the shader has two or more attributes of
  one kind, the interpolation writes past the local object.
\<close>

lemma shade_group_past_local:
  assumes "\<exists>l<4. depth_test rcp sb W st p x y l"
    and "\<not> list_all (\<lambda>i. i < 1) (written_elements md)"
  shows "shade_group rcp FS md sb W p x y st = None"
  using assms by (simp add: shade_group_unfold)

lemma FragmentShadeQuad_past_local:
  assumes "\<exists>l<4. depth_test rcp sb W st (m_PrimIdx pMask) (m_SampleX pMask) (m_SampleY pMask) l"
    and "\<not> list_all (\<lambda>i. i < 1) (written_elements md)"
  shows "FragmentShadeQuad rcp FS md sb W pMask st = None"
  using assms by (simp add: FragmentShadeQuad_unfold)

text \<open>
  With at most one attribute of each kind, the group has a result, and in it: the depth
  of a sample is replaced by its interpolated depth exactly when the sample belongs to
  the group and its interpolated depth is less than or equal to the depth stored for it,
  and is unchanged otherwise; the four colour bytes of a sample are replaced by the
  converted output of the fragment shader under the same condition and are unchanged
  otherwise; and the fragment shader is invoked once when some sample of the group passes
  the depth test and not at all when all four fail.
\<close>

lemma shade_group_masked_writes:
  assumes "list_all (\<lambda>i. i < 1) (written_elements md)"
  shows "\<exists>st'. shade_group rcp FS md sb W p x y st = Some st' \<and>
     (\<forall>a. m_pDepthBuffer st' a =
        (if x + y * W \<le> a \<and> a < x + y * W + 4 \<and> depth_test rcp sb W st p x y (a - (x + y * W))
         then group_depth rcp sb p x y (a - (x + y * W))
         else m_pDepthBuffer st a)) \<and>
     (\<forall>c. m_pColorBuffer st' c =
        (if 4 * x + y * (W * 4) \<le> c \<and> c < 4 * x + y * (W * 4) + 16 \<and>
            depth_test rcp sb W st p x y ((c - (4 * x + y * (W * 4))) div 4)
         then color_byte (fragmentOutput st' ((c - (4 * x + y * (W * 4))) div 4)
                            ((c - (4 * x + y * (W * 4))) mod 4))
         else m_pColorBuffer st c)) \<and>
     fs_invocations st' =
       fs_invocations st + (if \<exists>l<4. depth_test rcp sb W st p x y l then 1 else 0)"
proof (cases "\<exists>l<4. depth_test rcp sb W st p x y l")
  case True
  with assms show ?thesis
    by (simp add: shade_group_unfold UpdateDepthBuffer_def UpdateColorBuffer_def)
next
  case False
  have d: "\<not> depth_test rcp sb W st p x y (a - (x + y * W))"
    if "x + y * W \<le> a" "a < x + y * W + 4" for a
  proof -
    from that have "a - (x + y * W) < 4" by arith
    with False show ?thesis by blast
  qed
  have c: "\<not> depth_test rcp sb W st p x y ((c - (4 * x + y * (W * 4))) div 4)"
    if "4 * x + y * (W * 4) \<le> c" "c < 4 * x + y * (W * 4) + 16" for c
  proof -
    from that have "(c - (4 * x + y * (W * 4))) div 4 < 4" by arith
    with False show ?thesis by blast
  qed
  from False d c show ?thesis by (auto simp: shade_group_unfold)
qed

text \<open>The same for a quad mask, where a sample is written only when its bit of the mask is set.\<close>

lemma FragmentShadeQuad_masked_writes:
  assumes "list_all (\<lambda>i. i < 1) (written_elements md)"
  shows "\<exists>st'. FragmentShadeQuad rcp FS md sb W pMask st = Some st' \<and>
     (\<forall>a. m_pDepthBuffer st' a =
        (if m_SampleX pMask + m_SampleY pMask * W \<le> a \<and>
            a < m_SampleX pMask + m_SampleY pMask * W + 4 \<and>
            depth_test rcp sb W st (m_PrimIdx pMask) (m_SampleX pMask) (m_SampleY pMask)
              (a - (m_SampleX pMask + m_SampleY pMask * W)) \<and>
            bit (m_QuadMask pMask) (a - (m_SampleX pMask + m_SampleY pMask * W))
         then group_depth rcp sb (m_PrimIdx pMask) (m_SampleX pMask) (m_SampleY pMask)
                (a - (m_SampleX pMask + m_SampleY pMask * W))
         else m_pDepthBuffer st a)) \<and>
     (\<forall>c. m_pColorBuffer st' c =
        (if 4 * m_SampleX pMask + m_SampleY pMask * (W * 4) \<le> c \<and>
            c < 4 * m_SampleX pMask + m_SampleY pMask * (W * 4) + 16 \<and>
            depth_test rcp sb W st (m_PrimIdx pMask) (m_SampleX pMask) (m_SampleY pMask)
              ((c - (4 * m_SampleX pMask + m_SampleY pMask * (W * 4))) div 4) \<and>
            bit (m_QuadMask pMask) ((c - (4 * m_SampleX pMask + m_SampleY pMask * (W * 4))) div 4)
         then color_byte (fragmentOutput st'
                            ((c - (4 * m_SampleX pMask + m_SampleY pMask * (W * 4))) div 4)
                            ((c - (4 * m_SampleX pMask + m_SampleY pMask * (W * 4))) mod 4))
         else m_pColorBuffer st c)) \<and>
     fs_invocations st' =
       fs_invocations st +
         (if \<exists>l<4. depth_test rcp sb W st (m_PrimIdx pMask) (m_SampleX pMask) (m_SampleY pMask) l
          then 1 else 0)"
proof -
  let ?A = "m_SampleX pMask + m_SampleY pMask * W"
  let ?C = "4 * m_SampleX pMask + m_SampleY pMask * (W * 4)"
  let ?dt = "depth_test rcp sb W st (m_PrimIdx pMask) (m_SampleX pMask) (m_SampleY pMask)"
  have lane: "a - ?A < 4" if "?A \<le> a" "a < ?A + 4" for a
    using that by arith
  have lanec: "(c - ?C) div 4 < 4" if "?C \<le> c" "c < ?C + 16" for c
    using that by arith
  show ?thesis
  proof (cases "\<exists>l<4. ?dt l")
    case True
    have d: "mm_and_ps ?dt (sseColorMask (m_QuadMask pMask)) (a - ?A)
        = (?dt (a - ?A) \<and> bit (m_QuadMask pMask) (a - ?A))"
      if "?A \<le> a" "a < ?A + 4" for a
      using lane [OF that] by (simp add: mm_and_ps_def colmask)
    have c: "mm_and_ps ?dt (sseColorMask (m_QuadMask pMask)) ((c - ?C) div 4)
        = (?dt ((c - ?C) div 4) \<and> bit (m_QuadMask pMask) ((c - ?C) div 4))"
      if "?C \<le> c" "c < ?C + 16" for c
      using lanec [OF that] by (simp add: mm_and_ps_def colmask)
    from True assms d c show ?thesis
      by (auto simp: FragmentShadeQuad_unfold UpdateDepthBuffer_def UpdateColorBuffer_def)
  next
    case False
    from False lane have d: "\<not> ?dt (a - ?A)" if "?A \<le> a" "a < ?A + 4" for a
      using that by blast
    from False lanec have c: "\<not> ?dt ((c - ?C) div 4)" if "?C \<le> c" "c < ?C + 16" for c
      using that by blast
    from False d c show ?thesis by (auto simp: FragmentShadeQuad_unfold)
  qed
qed

text \<open>
  Shading a block never raises a depth: every group of the block writes a depth only
  where the new one is less than or equal to the stored one.
\<close>

lemma shade_group_depth_le:
  assumes "shade_group rcp FS md sb W p x y st = Some st'"
  shows "m_pDepthBuffer st' a \<le> m_pDepthBuffer st a"
proof (cases "\<exists>l<4. depth_test rcp sb W st p x y l")
  case False
  with assms show ?thesis by (simp add: shade_group_unfold)
next
  case True
  with assms have inb: "list_all (\<lambda>i. i < 1) (written_elements md)"
    by (auto simp: shade_group_unfold split: if_splits)
  from shade_group_masked_writes [OF inb, of rcp FS sb W p x y st] assms
  have e: "m_pDepthBuffer st' a =
        (if x + y * W \<le> a \<and> a < x + y * W + 4 \<and> depth_test rcp sb W st p x y (a - (x + y * W))
         then group_depth rcp sb p x y (a - (x + y * W))
         else m_pDepthBuffer st a)"
    by auto
  show ?thesis
  proof (cases "x + y * W \<le> a \<and> a < x + y * W + 4 \<and> depth_test rcp sb W st p x y (a - (x + y * W))")
    case True
    then have "x + y * W + (a - (x + y * W)) = a" by simp
    with True have "group_depth rcp sb p x y (a - (x + y * W)) \<le> m_pDepthBuffer st a"
      by (simp add: depth_test_def)
    with True e show ?thesis by simp
  next
    case False
    with e show ?thesis by auto
  qed
qed

lemma fold_bind_None: "fold (\<lambda>g r. Option.bind r (f g)) gs None = None"
  by (induction gs) simp_all

lemma fold_bind_depth_le:
  assumes "\<And>g st st' a. f g st = Some st' \<Longrightarrow> m_pDepthBuffer st' a \<le> m_pDepthBuffer st a"
    and "fold (\<lambda>g r. Option.bind r (f g)) gs (Some st) = Some st'"
  shows "m_pDepthBuffer st' a \<le> m_pDepthBuffer st a"
  using assms(2)
proof (induction gs arbitrary: st)
  case Nil
  then show ?case by simp
next
  case (Cons g gs)
  show ?case
  proof (cases "f g st")
    case None
    with Cons.prems show ?thesis by (simp add: fold_bind_None)
  next
    case (Some st1)
    with Cons.prems have "fold (\<lambda>g r. Option.bind r (f g)) gs (Some st1) = Some st'" by simp
    then have "m_pDepthBuffer st' a \<le> m_pDepthBuffer st1 a" by (rule Cons.IH)
    also have "\<dots> \<le> m_pDepthBuffer st a" using Some by (rule assms(1))
    finally show ?thesis .
  qed
qed

lemma fold_fold_bind_None:
  "fold (\<lambda>py. fold (\<lambda>px r. Option.bind r (f py px)) pxs) pys None = None"
  by (induction pys) (simp_all add: fold_bind_None)

lemma fold_fold_bind_depth_le:
  assumes "\<And>py px st st' a. f py px st = Some st' \<Longrightarrow> m_pDepthBuffer st' a \<le> m_pDepthBuffer st a"
    and "fold (\<lambda>py. fold (\<lambda>px r. Option.bind r (f py px)) pxs) pys (Some st) = Some st'"
  shows "m_pDepthBuffer st' a \<le> m_pDepthBuffer st a"
  using assms(2)
proof (induction pys arbitrary: st)
  case Nil
  then show ?case by simp
next
  case (Cons py pys)
  show ?case
  proof (cases "fold (\<lambda>px r. Option.bind r (f py px)) pxs (Some st)")
    case None
    with Cons.prems show ?thesis by (simp add: fold_fold_bind_None)
  next
    case (Some st1)
    with Cons.prems
    have "fold (\<lambda>py. fold (\<lambda>px r. Option.bind r (f py px)) pxs) pys (Some st1) = Some st'"
      by simp
    then have "m_pDepthBuffer st' a \<le> m_pDepthBuffer st1 a" by (rule Cons.IH)
    also have "\<dots> \<le> m_pDepthBuffer st a"
      using assms(1) Some by (rule fold_bind_depth_le)
    finally show ?thesis .
  qed
qed

lemma FragmentShadeBlock_depth_le:
  assumes "FragmentShadeBlock rcp FS md sb W bx by p st = Some st'"
  shows "m_pDepthBuffer st' a \<le> m_pDepthBuffer st a"
  using shade_group_depth_le assms unfolding FragmentShadeBlock_def
  by (rule fold_fold_bind_depth_le)

text \<open>With at most one attribute of each kind, shading a block has a result.\<close>

lemma fold_bind_defined:
  assumes "\<And>g st. \<exists>st'. f g st = Some st'"
  shows "\<exists>st'. fold (\<lambda>g r. Option.bind r (f g)) gs (Some st) = Some st'"
proof (induction gs arbitrary: st)
  case Nil
  show ?case by simp
next
  case (Cons g gs)
  from assms obtain st1 where "f g st = Some st1" by blast
  with Cons.IH [of st1] show ?case by simp
qed

lemma fold_fold_bind_defined:
  assumes "\<And>py px st. \<exists>st'. f py px st = Some st'"
  shows "\<exists>st'. fold (\<lambda>py. fold (\<lambda>px r. Option.bind r (f py px)) pxs) pys (Some st) = Some st'"
proof (induction pys arbitrary: st)
  case Nil
  show ?case by simp
next
  case (Cons py pys)
  from fold_bind_defined [of "f py" pxs st] assms
  obtain st1 where "fold (\<lambda>px r. Option.bind r (f py px)) pxs (Some st) = Some st1" by blast
  with Cons.IH [of st1] show ?case by simp
qed

lemma FragmentShadeBlock_defined:
  assumes "list_all (\<lambda>i. i < 1) (written_elements md)"
  shows "\<exists>st'. FragmentShadeBlock rcp FS md sb W bx by p st = Some st'"
proof -
  have "\<exists>st'. shade_group rcp FS md sb W p x y st = Some st'" for x y st
    using shade_group_masked_writes [OF assms, of rcp FS sb W p x y st] by blast
  then show ?thesis
    unfolding FragmentShadeBlock_def by (intro fold_fold_bind_defined)
qed

text \<open>The first group of a block is the group at the position of the block.\<close>

lemma fold_fold_bind_first:
  assumes "f py px st = None"
  shows "fold (\<lambda>py. fold (\<lambda>px r. Option.bind r (f py px)) (px # pxs)) (py # pys) (Some st) = None"
proof -
  have "fold (\<lambda>px r. Option.bind r (f py px)) (px # pxs) (Some st) = None"
    using assms by (simp add: fold_bind_None)
  then have "fold (\<lambda>py. fold (\<lambda>px r. Option.bind r (f py px)) (px # pxs)) (py # pys) (Some st)
      = fold (\<lambda>py. fold (\<lambda>px r. Option.bind r (f py px)) (px # pxs)) pys None"
    by (simp only: fold_Cons comp_apply)
  then show ?thesis by (simp only: fold_fold_bind_None)
qed

lemma FragmentShadeBlock_first_group:
  assumes "shade_group rcp FS md sb W p bx by st = None"
  shows "FragmentShadeBlock rcp FS md sb W bx by p st = None"
proof -
  have r: "[0..<g_scPixelBlockSize] = 0 # [1..<8]"
    by (simp add: g_scPixelBlockSize_def upt_rec)
  have g: "[0..<g_scNumEdgeTestsPerRow] = 0 # [1..<2]"
    by (simp add: g_scNumEdgeTestsPerRow_def g_scPixelBlockSize_def g_scSIMDWidth_def upt_rec)
  show ?thesis
    unfolding FragmentShadeBlock_def r g
    by (rule fold_fold_bind_first) (simp add: assms)
qed

text \<open>A primitive whose Z deltas are all 0 has the interpolated depth 0 at every sample.\<close>

lemma group_depth_zero:
  "group_depth rcp (sb\<lparr>m_pInterpolatedZValues := (\<lambda>p. Vec3 0 0 0)\<rparr>) p x y l = 0"
  by (simp add: group_depth_def InterpolateDepthValues_def mm_add_ps_def mm_mul_ps_def
      mm_set_ps1_def fadd_def fmul_def fl32_0 Let_def)

lemma depth_test_zero:
  "depth_test rcp (sb\<lparr>m_pInterpolatedZValues := (\<lambda>p. Vec3 0 0 0)\<rparr>) W
     (st\<lparr>m_pDepthBuffer := (\<lambda>a. 1)\<rparr>) p x y l"
  unfolding depth_test_def group_depth_zero by simp

text \<open>
  Claim C9. The claim asks that fragment shading of a block or quad mask writes the
  depth and the colour bytes of the samples that pass the depth test (and whose bit of
  the quad mask is set) and of no other sample, and that the fragment shader is not
  invoked for a group whose four samples all fail. For a shader with at most one
  attribute of each kind the code does so (\<open>shade_group_masked_writes\<close>,
  \<open>FragmentShadeQuad_masked_writes\<close>). For a shader with two vec4 attributes the call
  of \<open>InterpolateVertexAttributes\<close> that precedes the stores writes the elements 0 and
  1 of the array that its pointer refers to, and the callers pass the address of one
  local object: whenever a sample of the group passes the depth test, here with the
  interpolated depth 0 against the stored depth 1, the code writes past the end of
  that object before it stores anything, and has no defined result.
\<close>

theorem C9_two_vec4_attributes_write_past_local:
  "written_elements
     \<lparr>m_NumVec4Attributes = 2, m_NumVec3Attributes = 0, m_NumVec2Attributes = 0\<rparr> = [0, 1]
   \<and> shade_group rcp FS
       \<lparr>m_NumVec4Attributes = 2, m_NumVec3Attributes = 0, m_NumVec2Attributes = 0\<rparr>
       (sb\<lparr>m_pInterpolatedZValues := (\<lambda>p. Vec3 0 0 0)\<rparr>) W p x y
       (st\<lparr>m_pDepthBuffer := (\<lambda>a. 1)\<rparr>) = None
   \<and> FragmentShadeBlock rcp FS
       \<lparr>m_NumVec4Attributes = 2, m_NumVec3Attributes = 0, m_NumVec2Attributes = 0\<rparr>
       (sb\<lparr>m_pInterpolatedZValues := (\<lambda>p. Vec3 0 0 0)\<rparr>) W x y p
       (st\<lparr>m_pDepthBuffer := (\<lambda>a. 1)\<rparr>) = None
   \<and> FragmentShadeQuad rcp FS
       \<lparr>m_NumVec4Attributes = 2, m_NumVec3Attributes = 0, m_NumVec2Attributes = 0\<rparr>
       (sb\<lparr>m_pInterpolatedZValues := (\<lambda>p. Vec3 0 0 0)\<rparr>) W pMask
       (st\<lparr>m_pDepthBuffer := (\<lambda>a. 1)\<rparr>) = None"
proof -
  let ?md = "\<lparr>m_NumVec4Attributes = 2, m_NumVec3Attributes = 0, m_NumVec2Attributes = 0\<rparr>"
  let ?sb = "sb\<lparr>m_pInterpolatedZValues := (\<lambda>p. Vec3 0 0 0)\<rparr>"
  let ?st = "st\<lparr>m_pDepthBuffer := (\<lambda>a. 1)\<rparr>"
  have w: "written_elements ?md = [0, 1]"
    by (simp add: written_elements_def upt_rec)
  have n: "\<not> list_all (\<lambda>i. i < 1) (written_elements ?md)"
    unfolding w by simp
  have "(0::nat) < 4" by simp
  then have p: "\<exists>l<4. depth_test rcp ?sb W ?st q u v l" for q u v
    using depth_test_zero by blast
  have g: "shade_group rcp FS ?md ?sb W p x y ?st = None"
    using p n by (rule shade_group_past_local)
  have b: "FragmentShadeBlock rcp FS ?md ?sb W x y p ?st = None"
    using g by (rule FragmentShadeBlock_first_group)
  have q: "FragmentShadeQuad rcp FS ?md ?sb W pMask ?st = None"
    using p n by (rule FragmentShadeQuad_past_local)
  from w g b q show ?thesis by (intro conjI)
qed

section \<open>Rasterizer queue and bins\<close>

lemma pushes_append: "pushes t w (evs @ evs') = pushes t w evs @ pushes t w evs'"
  by (induction t w evs rule: pushes.induct) auto

lemma pushes_nonempty: "pushes t w evs \<noteq> [] \<Longrightarrow> list_ex (is_bin_push t) evs"
  by (induction t w evs rule: pushes.induct) (auto split: if_splits)

lemma bin_push_pushes: "list_ex (is_bin_push t) evs \<Longrightarrow> \<exists>w. pushes t w evs \<noteq> []"
proof (induction evs)
  case Nil
  then show ?case by simp
next
  case (Cons ev evs)
  show ?case
  proof (cases ev)
    case (EvTrivialAccept w' t' m)
    with Cons show ?thesis by simp
  next
    case (EvBin w' t' p)
    show ?thesis
    proof (cases "t' = t")
      case True
      with EvBin have "pushes t w' (ev # evs) \<noteq> []" by simp
      then show ?thesis by blast
    next
      case False
      with EvBin Cons.prems have "list_ex (is_bin_push t) evs" by simp
      from Cons.IH [OF this] obtain w where "pushes t w evs \<noteq> []" by blast
      with EvBin have "pushes t w (ev # evs) \<noteq> []" by simp
      then show ?thesis by blast
    qed
  qed
qed

lemma event_tile_cases:
  "(event_tile ev = t) = (is_trivial_accept t ev \<or> is_bin_push t ev)"
  by (cases ev) auto

lemma Enqueue_effect:
  "m_RasterizerQueue (EnqueueTileForRasterization t s) =
     (if m_IsTileQueued s t then m_RasterizerQueue s else m_RasterizerQueue s @ [t])"
  "m_IsTileQueued (EnqueueTileForRasterization t s) = (m_IsTileQueued s)(t := True)"
  "m_BinList (EnqueueTileForRasterization t s) = m_BinList s"
  "m_CoverageMasks (EnqueueTileForRasterization t s) = m_CoverageMasks s"
  "m_SetupBuffers (EnqueueTileForRasterization t s) = m_SetupBuffers s"
  by (auto simp: EnqueueTileForRasterization_def fun_upd_idem)

lemma Append_effect:
  "m_RasterizerQueue (AppendCoverageMask w t m s) = m_RasterizerQueue s"
  "m_IsTileQueued (AppendCoverageMask w t m s) = m_IsTileQueued s"
  "m_BinList (AppendCoverageMask w t m s) = m_BinList s"
  "m_SetupBuffers (AppendCoverageMask w t m s) = m_SetupBuffers s"
  by (simp_all add: AppendCoverageMask_def)

lemma Bin_effect:
  "m_RasterizerQueue (BinPrimitiveForTile w t p s) =
     (if m_BinList s t w = [] \<and> \<not> m_IsTileQueued s t then m_RasterizerQueue s @ [t]
      else m_RasterizerQueue s)"
  "m_IsTileQueued (BinPrimitiveForTile w t p s) =
     (if m_BinList s t w = [] then (m_IsTileQueued s)(t := True) else m_IsTileQueued s)"
  "m_BinList (BinPrimitiveForTile w t p s) =
     (m_BinList s)(t := (m_BinList s t)(w := m_BinList s t w @ [p]))"
  "m_CoverageMasks (BinPrimitiveForTile w t p s) = m_CoverageMasks s"
  "m_SetupBuffers (BinPrimitiveForTile w t p s) = m_SetupBuffers s"
  by (auto simp: BinPrimitiveForTile_def Let_def Enqueue_effect)

text \<open>What holds after any sequence of calls from the start of a draw iteration.\<close>

lemma event_run_invariant:
  "distinct (m_RasterizerQueue (fold apply_event evs (ApplyPreDrawIterationStateInvalidations s0)))
   \<and> (\<forall>t. m_IsTileQueued (fold apply_event evs (ApplyPreDrawIterationStateInvalidations s0)) t
          = (t \<in> set (m_RasterizerQueue
                        (fold apply_event evs (ApplyPreDrawIterationStateInvalidations s0)))))
   \<and> set (m_RasterizerQueue (fold apply_event evs (ApplyPreDrawIterationStateInvalidations s0)))
       = event_tile ` set evs
   \<and> (\<forall>t w. m_BinList (fold apply_event evs (ApplyPreDrawIterationStateInvalidations s0)) t w
            = pushes t w evs)"
proof (induction evs rule: rev_induct)
  case Nil
  show ?case by (simp add: ApplyPreDrawIterationStateInvalidations_def)
next
  case (snoc ev evs)
  let ?s = "fold apply_event evs (ApplyPreDrawIterationStateInvalidations s0)"
  from snoc have d: "distinct (m_RasterizerQueue ?s)"
    and f: "\<And>t. m_IsTileQueued ?s t = (t \<in> set (m_RasterizerQueue ?s))"
    and q: "set (m_RasterizerQueue ?s) = event_tile ` set evs"
    and b: "\<And>t w. m_BinList ?s t w = pushes t w evs"
    by blast+
  show ?case
  proof (cases ev)
    case (EvTrivialAccept w t m)
    have 1: "distinct (m_RasterizerQueue (apply_event ev ?s))"
      using d f [of t] by (simp add: EvTrivialAccept Enqueue_effect Append_effect)
    have 2: "m_IsTileQueued (apply_event ev ?s) t' = (t' \<in> set (m_RasterizerQueue (apply_event ev ?s)))"
      for t'
      using f [of t] f [of t'] by (simp add: EvTrivialAccept Enqueue_effect Append_effect)
    have 3: "set (m_RasterizerQueue (apply_event ev ?s)) = event_tile ` set (evs @ [ev])"
      using q f [of t] by (auto simp: EvTrivialAccept Enqueue_effect Append_effect)
    have 4: "m_BinList (apply_event ev ?s) t' w' = pushes t' w' (evs @ [ev])" for t' w'
      using b [of t' w'] by (simp add: EvTrivialAccept Enqueue_effect Append_effect pushes_append)
    from 1 2 3 4 show ?thesis by simp
  next
    case (EvBin w t p)
    have queued: "m_IsTileQueued ?s t" if "m_BinList ?s t w \<noteq> []"
    proof -
      from that b have "pushes t w evs \<noteq> []" by simp
      then have "list_ex (is_bin_push t) evs" by (rule pushes_nonempty)
      then obtain e where e: "e \<in> set evs" "is_bin_push t e" by (auto simp: list_ex_iff)
      then have "event_tile e = t" by (simp add: event_tile_cases)
      with e(1) have "t \<in> event_tile ` set evs" by blast
      with q f show ?thesis by simp
    qed
    have 1: "distinct (m_RasterizerQueue (apply_event ev ?s))"
      using d f [of t] by (simp add: EvBin Bin_effect)
    have 2: "m_IsTileQueued (apply_event ev ?s) t' = (t' \<in> set (m_RasterizerQueue (apply_event ev ?s)))"
      for t'
      using f [of t] f [of t'] queued by (auto simp: EvBin Bin_effect)
    have 3: "set (m_RasterizerQueue (apply_event ev ?s)) = event_tile ` set (evs @ [ev])"
      using q f [of t] queued by (auto simp: EvBin Bin_effect)
    have 4: "m_BinList (apply_event ev ?s) t' w' = pushes t' w' (evs @ [ev])" for t' w'
      using b by (auto simp: EvBin Bin_effect pushes_append)
    from 1 2 3 4 show ?thesis by simp
  qed
qed

text \<open>
  Claim C4. After any interleaving of the calls that the workers make during the
  geometry phase of a draw iteration, from the state that the iteration starts in: no
  tile is in the rasterizer queue twice; a tile is in the queue exactly when some worker
  has trivially accepted it or has pushed a primitive into one of its bins, which is the
  case exactly when one of its bins is not empty; and the queued flag of a tile is set
  exactly when the tile is in the queue, so that every enqueuer after the first one finds
  the flag set and does not insert.
\<close>

theorem C4_tile_queued_iff_accepted_or_binned_once:
  "distinct (m_RasterizerQueue (fold apply_event evs (ApplyPreDrawIterationStateInvalidations s0)))
   \<and> (t \<in> set (m_RasterizerQueue (fold apply_event evs (ApplyPreDrawIterationStateInvalidations s0))))
       = (list_ex (is_trivial_accept t) evs \<or> list_ex (is_bin_push t) evs)
   \<and> list_ex (is_bin_push t) evs
       = (\<exists>w. m_BinList (fold apply_event evs (ApplyPreDrawIterationStateInvalidations s0)) t w \<noteq> [])
   \<and> m_IsTileQueued (fold apply_event evs (ApplyPreDrawIterationStateInvalidations s0)) t
       = (t \<in> set (m_RasterizerQueue (fold apply_event evs (ApplyPreDrawIterationStateInvalidations s0))))"
proof -
  let ?s = "fold apply_event evs (ApplyPreDrawIterationStateInvalidations s0)"
  note inv = event_run_invariant [of evs s0]
  from inv have d: "distinct (m_RasterizerQueue ?s)" by blast
  from inv have f: "m_IsTileQueued ?s t = (t \<in> set (m_RasterizerQueue ?s))" by blast
  from inv have q: "set (m_RasterizerQueue ?s) = event_tile ` set evs" by blast
  from inv have b: "\<And>w. m_BinList ?s t w = pushes t w evs" by blast
  have "(t \<in> event_tile ` set evs) = (\<exists>e \<in> set evs. event_tile e = t)" by auto
  also have "\<dots> = (\<exists>e \<in> set evs. is_trivial_accept t e \<or> is_bin_push t e)"
    by (simp add: event_tile_cases)
  also have "\<dots> = (list_ex (is_trivial_accept t) evs \<or> list_ex (is_bin_push t) evs)"
    by (auto simp: list_ex_iff)
  finally have "(t \<in> event_tile ` set evs)
      = (list_ex (is_trivial_accept t) evs \<or> list_ex (is_bin_push t) evs)" .
  with q have m: "(t \<in> set (m_RasterizerQueue ?s))
       = (list_ex (is_trivial_accept t) evs \<or> list_ex (is_bin_push t) evs)" by simp
  have p: "list_ex (is_bin_push t) evs = (\<exists>w. m_BinList ?s t w \<noteq> [])"
    using bin_push_pushes [of t evs] pushes_nonempty [of t _ evs] by (auto simp: b)
  from d m p f show ?thesis by (intro conjI)
qed

text \<open>
  The runs of the code are runs of events: the loop body of the binner, the binner, the
  geometry loop of a worker, and the geometry phase with the workers taking turns.
\<close>

lemma binner_tile_as_events:
  "binner_tile cfg sc n w p e0 e1 e2 px py tx ty txx tyy s =
     fold apply_event (binner_tile_events cfg sc n w p e0 e1 e2 px py tx ty txx tyy) s"
  by (simp add: binner_tile_def binner_tile_events_def Let_def split: CoverageTest.split)

lemma fold_fold_events:
  "fold (\<lambda>x. fold apply_event (f x)) xs s = fold apply_event (concat (map f xs)) s"
  by (induction xs arbitrary: s) simp_all

lemma apply_event_setup:
  "apply_event ev (s\<lparr>m_SetupBuffers := x\<rparr>) = (apply_event ev s)\<lparr>m_SetupBuffers := x\<rparr>"
  by (cases ev)
    (simp_all add: BinPrimitiveForTile_def EnqueueTileForRasterization_def
      AppendCoverageMask_def Let_def)

lemma fold_apply_event_setup:
  "fold apply_event evs (s\<lparr>m_SetupBuffers := x\<rparr>) = (fold apply_event evs s)\<lparr>m_SetupBuffers := x\<rparr>"
  by (induction evs arbitrary: s) (simp_all add: apply_event_setup)

lemma event_run_refl: "event_run s s"
  unfolding event_run_def by (rule exI [of _ "[]"], rule exI [of _ "m_SetupBuffers s"]) simp

lemma event_run_setup: "event_run s (s\<lparr>m_SetupBuffers := sb\<rparr>)"
  unfolding event_run_def by (rule exI [of _ "[]"], rule exI [of _ sb]) simp

lemma event_run_trans:
  assumes "event_run s s'" and "event_run s' s''"
  shows "event_run s s''"
proof -
  from assms(1) obtain e1 b1 where 1: "s' = (fold apply_event e1 s)\<lparr>m_SetupBuffers := b1\<rparr>"
    unfolding event_run_def by blast
  from assms(2) obtain e2 b2 where 2: "s'' = (fold apply_event e2 s')\<lparr>m_SetupBuffers := b2\<rparr>"
    unfolding event_run_def by blast
  have "s'' = (fold apply_event (e1 @ e2) s)\<lparr>m_SetupBuffers := b2\<rparr>"
    by (simp add: 1 2 fold_apply_event_setup)
  then show ?thesis unfolding event_run_def by blast
qed

lemma event_run_events: "event_run s (fold apply_event evs s)"
  unfolding event_run_def by (rule exI [of _ evs], rule exI [of _ "m_SetupBuffers (fold apply_event evs s)"]) simp

lemma ExecuteBinner_event_run: "event_run s (ExecuteBinner cfg sc W H w p v0 v1 v2 s)"
proof -
  have loops: "event_run s'
      (fold (\<lambda>tyy. fold (\<lambda>txx. binner_tile cfg sc n w p e0 e1 e2 px py (mx + txx) (my + tyy) txx tyy) xs) ys s')"
    for s' n e0 e1 e2 px py mx my xs ys
  proof -
    have "fold (\<lambda>tyy. fold (\<lambda>txx. binner_tile cfg sc n w p e0 e1 e2 px py (mx + txx) (my + tyy) txx tyy) xs) ys s'
        = fold apply_event
            (concat (map (\<lambda>tyy. concat (map (\<lambda>txx.
               binner_tile_events cfg sc n w p e0 e1 e2 px py (mx + txx) (my + tyy) txx tyy) xs)) ys)) s'"
      unfolding binner_tile_as_events fold_fold_events ..
    then show ?thesis by (simp add: event_run_events)
  qed
  show ?thesis
    unfolding ExecuteBinner_def Let_def
    by (auto intro: event_run_refl event_run_trans [OF event_run_setup loops])
qed

lemma process_primitive_event_run:
  "event_run (snd cs) (snd (process_primitive ctx w p d cs))"
proof -
  have b: "event_run s (ExecuteBinner cfg sc W H w d v0 v1 v2 (s\<lparr>m_SetupBuffers := Y\<rparr>))"
    for s cfg sc W H v0 v1 v2 Y
    by (rule event_run_trans [OF event_run_setup ExecuteBinner_event_run])
  show ?thesis
    unfolding process_primitive_def Let_def split_beta
    by (simp add: event_run_setup b)
qed

lemma ProcessDrawcall_geometry_event_run:
  "event_run (snd cs) (snd (ProcessDrawcall_geometry ctx w r cs))"
proof -
  have "event_run (snd cs) (snd (fold (\<lambda>primIdx. process_primitive ctx w primIdx (f primIdx)) ps cs))"
    for f ps
  proof (induction ps arbitrary: cs)
    case Nil
    show ?case by (simp add: event_run_refl)
  next
    case (Cons a ps)
    show ?case
      using event_run_trans [OF process_primitive_event_run Cons.IH] by simp
  qed
  then show ?thesis unfolding ProcessDrawcall_geometry_def .
qed

lemma geometry_phase_in_turn_event_run:
  "event_run (snd cs) (snd (geometry_phase_in_turn ctx ranges cs))"
proof -
  have "event_run (snd cs)
      (snd (fold (\<lambda>threadIdx (caches, s).
            (let r = ProcessDrawcall_geometry ctx threadIdx (ranges ! threadIdx) (caches threadIdx, s)
             in (caches(threadIdx := fst r), snd r))) ws cs))" for ws
  proof (induction ws arbitrary: cs)
    case Nil
    show ?case by (simp add: event_run_refl)
  next
    case (Cons a ws)
    obtain caches s where cs: "cs = (caches, s)" by (cases cs)
    let ?r = "ProcessDrawcall_geometry ctx a (ranges ! a) (caches a, s)"
    have 1: "event_run s (snd ?r)"
      using ProcessDrawcall_geometry_event_run [of "(caches a, s)"] by simp
    have 2: "event_run (snd ?r)
      (snd (fold (\<lambda>threadIdx (caches, s).
            (let r = ProcessDrawcall_geometry ctx threadIdx (ranges ! threadIdx) (caches threadIdx, s)
             in (caches(threadIdx := fst r), snd r))) ws (caches(a := fst ?r), snd ?r)))"
      using Cons.IH [of "(caches(a := fst ?r), snd ?r)"] by (simp only: snd_conv)
    from event_run_trans [OF 1 2] show ?case
      by (simp only: cs fold_Cons comp_apply prod.case Let_def snd_conv fst_conv)
  qed
  then show ?thesis unfolding geometry_phase_in_turn_def .
qed

section \<open>Hierarchical coverage test\<close>









text \<open>
  Rounding shows at a single edge already. For the edge \<open>(a, a, -32)\<close> with \<open>a\<close> the
  binary32 number next to 0.1, which is \<open>13421773 / 2 ^ 27\<close>, regions of side 64 and
  the first region at the origin, the value stepped to the region one step to the right
  and two steps up is \<open>- 1 / 1048576\<close>; the TR corner of that region is \<open>(128, 192)\<close>,
  where the direct evaluation in binary32 yields 0.
\<close>

lemma fl32_example_1: "fl32 (- (20132659 / 1048576)) = - (5033165 / 262144)"
  by (subst fl32_eval [where k = 130 and N = "20132659 * 2 ^ 129"])
     (simp_all add: round_half_even_def)

lemma fl32_example_2: "fl32 (- (26843547 / 2097152)) = - (6710887 / 524288)"
  by (subst fl32_eval [where k = 129 and N = "26843547 * 2 ^ 128"])
     (simp_all add: round_half_even_def)

lemma fl32_example_3: "fl32 (40265319 / 2097152) = 5033165 / 262144"
  by (subst fl32_eval [where k = 130 and N = "40265319 * 2 ^ 128"])
     (simp_all add: round_half_even_def)

lemma fl32_example_4: "fl32 (33554433 / 1048576) = 32"
  by (subst fl32_eval [where k = 131 and N = "33554433 * 2 ^ 129"])
     (simp_all add: round_half_even_def)

lemma fl32_example_rep:
  "fl32 (13421773 / 2097152) = 13421773 / 2097152"
  "fl32 (13421773 / 1048576) = 13421773 / 1048576"
  "fl32 (- (1 / 1048576)) = - (1 / 1048576)"
  using fl32_rep [of 13421773 128] fl32_rep [of 13421773 129] fl32_rep [of "- 1" 129]
  by simp_all

lemma example_stepped:
  "edgeFuncTR 64 64 (Vec3 (13421773 / 134217728) (13421773 / 134217728) (- 32)) 0 0 1 2
     = - (1 / 1048576)"
  by (simp add: edgeFuncTR_def edgeFunc_def TRCorner_def TRCornerOffsets_def float_ops
      fl32_small fl32_example_rep fl32_example_1 fl32_example_2)

lemma example_direct:
  "spec_E32 (Vec3 (13421773 / 134217728) (13421773 / 134217728) (- 32)) (128, 192) = 0"
  by (simp add: spec_E32_def float_ops fl32_small fl32_example_rep fl32_example_3 fl32_example_4)






























































section \<open>Capacity of the bins\<close>

lemma ex_ranges: "iteration_ranges ex_cfg 0 3 = [(0, 1), (1, 3)]"
  by (simp add: iteration_ranges_def ex_cfg_def Let_def upt_rec)

lemma ex_reserve: "bin_reserve ex_cfg = 1"
  by (simp add: bin_reserve_def ex_cfg_def)

lemma ex_vs:
  "ExecuteVertexShader False n ex_VS (\<lambda>n. of_nat (n mod 3)) 0 p c =
     (c, (Vec4 (-1) (-1) (1/2) 1, ex_attribs), (Vec4 (-1) 1 (1/2) 1, ex_attribs),
         (Vec4 1 (-1) (1/2) 1, ex_attribs))"
proof -
  have a: "(0 + 3 * p) mod 3 = (0::nat)" "(0 + (3 * p + 1)) mod 3 = (1::nat)"
    "(0 + (3 * p + 2)) mod 3 = (2::nat)"
    by presburger+
  show ?thesis
    unfolding ExecuteVertexShader_def Let_def a by (simp add: ex_VS_def)
qed

lemma ex_clip:
  "ExecuteFullTriangleClipping True (Vec4 (-1) (-1) (1/2) 1) (Vec4 (-1) 1 (1/2) 1) (Vec4 1 (-1) (1/2) 1)"
  by (simp add: ExecuteFullTriangleClipping_def)

lemma ex_setup:
  "ExecuteTriangleSetupAndCull 64 64 d (Vec4 (-1) (-1) (1/2) 1) (Vec4 (-1) 1 (1/2) 1) (Vec4 1 (-1) (1/2) 1) sb =
     (True,
      sb\<lparr>m_pEdgeCoefficients :=
           (m_pEdgeCoefficients sb)
             (3 * d + 0 := Vec3 (-64) (-64) 4096,
              3 * d + 1 := Vec3 0 64 0,
              3 * d + 2 := Vec3 64 0 0),
         m_pInterpolatedZValues := (m_pInterpolatedZValues sb)(d := Vec3 0 0 (1/2))\<rparr>)"
  by (simp add: ExecuteTriangleSetupAndCull_def TO_HOMOGEN_def Let_def float_ops fl32_small)

lemma ex_bbox:
  "ComputeBoundingBox (Vec4 (-1) (-1) (1/2) 1) (Vec4 (-1) 1 (1/2) 1) (Vec4 1 (-1) (1/2) 1) 64 64
     = \<lparr>m_MinX = 0, m_MinY = 0, m_MaxX = 64, m_MaxY = 64\<rparr>"
  by (simp add: ComputeBoundingBox_def Let_def float_ops fl32_small)

lemma ex_coverage:
  "coverage_test 64 64 (Vec3 (-64) (-64) 4096) (Vec3 0 64 0) (Vec3 64 0 0) 0 0 0 0 = Overlap"
  by (simp add: coverage_test_def edgeFuncTR_def edgeFunc_def TRCorner_def TACorner_def
      TRCornerOffsets_def TACornerOffsets_def TACornerXOffset_def TACornerYOffset_def Let_def
      float_ops fl32_small)

lemma ex_binner:
  assumes "m_pEdgeCoefficients (m_SetupBuffers s) (3 * d + 0) = Vec3 (-64) (-64) 4096"
    and "m_pEdgeCoefficients (m_SetupBuffers s) (3 * d + 1) = Vec3 0 64 0"
    and "m_pEdgeCoefficients (m_SetupBuffers s) (3 * d + 2) = Vec3 64 0 0"
  shows "m_BinList (ExecuteBinner ex_cfg 64 64 64 w d
            (Vec4 (-1) (-1) (1/2) 1) (Vec4 (-1) 1 (1/2) 1) (Vec4 1 (-1) (1/2) 1) s)
         = (m_BinList s)(0 := (m_BinList s 0)(w := m_BinList s 0 w @ [d]))"
  unfolding ExecuteBinner_def ex_bbox Let_def
  using assms
  by (simp add: ex_cfg_def tile_PosX_def tile_PosY_def binner_tile_def ex_coverage
      GetGlobalTileIndex_def Bin_effect float_ops fl32_small)

lemma ex_primitive:
  "m_BinList (snd (process_primitive ex_ctx w p d (c, s)))
     = (m_BinList s)(0 := (m_BinList s 0)(w := m_BinList s 0 w @ [d]))"
  unfolding process_primitive_def
  by (simp add: ex_ctx_def ex_vs ex_clip ex_setup Let_def ex_binner)


lemma ex_primitive':
  "m_BinList (snd (process_primitive ex_ctx w p d cs))
     = (m_BinList (snd cs))(0 := (m_BinList (snd cs) 0)(w := m_BinList (snd cs) 0 w @ [d]))"
  using ex_primitive [of w p d "fst cs" "snd cs"] by simp

lemma ex_fold:
  "m_BinList (snd (fold (\<lambda>p. process_primitive ex_ctx w p (f p)) ps cs))
     = (m_BinList (snd cs))(0 := (m_BinList (snd cs) 0)(w := m_BinList (snd cs) 0 w @ map f ps))"
proof (induction ps arbitrary: cs)
  case Nil
  show ?case by simp
next
  case (Cons p ps)
  show ?case by (auto simp: Cons.IH ex_primitive' fun_eq_iff)
qed

lemma ex_max: "m_MaxDrawIterationSize (ctx_config ex_ctx) = 3"
  by (simp add: ex_ctx_def ex_cfg_def)

lemma ex_worker:
  "m_BinList (snd (ProcessDrawcall_geometry ex_ctx w (a, b) cs))
     = (m_BinList (snd cs))
         (0 := (m_BinList (snd cs) 0)
            (w := m_BinList (snd cs) 0 w @ map (\<lambda>p. a mod 3 + (p - a)) [a..<b]))"
  unfolding ProcessDrawcall_geometry_def fst_conv snd_conv ex_max by (rule ex_fold)

text \<open>
  Claim C5. The claim asks that no bin ever holds more primitives than the capacity
  reserved for it, \<open>m_MaxDrawIterationSize / m_NumPipelineThreads\<close>, also when the
  iteration size is not a multiple of the number of workers. For iterations of at most
  three primitives and two workers the reserved capacity is 1. In a draw of three
  triangles the last worker gets the range from 1 to 3, and when both of its triangles
  overlap tile 0 its bin for that tile receives two primitives. The coordinates of the
  example and everything that the code computes of them are binary32 numbers, so that
  no operation rounds.
\<close>

theorem C5_last_worker_bin_exceeds_reserve:
  "iteration_ranges ex_cfg 0 3 = [(0, 1), (1, 3)]
   \<and> bin_reserve ex_cfg = 1
   \<and> m_BinList (snd (geometry_phase_in_turn ex_ctx (iteration_ranges ex_cfg 0 3)
        (\<lambda>w. [], ApplyPreDrawIterationStateInvalidations s0))) 0 1 = [1, 2]"
  by (simp add: ex_ranges ex_reserve geometry_phase_in_turn_def upt_rec Let_def
      ex_worker ApplyPreDrawIterationStateInvalidations_def)

end
